theory Spec2Isabelle
  imports Complex_Main "HOL-Library.Sublist"
begin

section \<open>Module constants of bootstrap.py\<close>

definition RECONNECT_INTERVAL_IN_SEC :: nat where
  "RECONNECT_INTERVAL_IN_SEC = 300"

definition SWITCH_INTERVAL_IN_SEC :: nat where
  "SWITCH_INTERVAL_IN_SEC = 30"

definition MAX_FAIL_DURATION_IN_HOUR :: nat where
  "MAX_FAIL_DURATION_IN_HOUR = 48"

definition HOUR_IN_SEC :: nat where
  "HOUR_IN_SEC = 3600"

text \<open>
  Python's \<open>/\<close> on two integers is true division, so both thresholds are fractional
  numbers in the source (\<open>576.0\<close> and \<open>5760.0\<close>); they are rationals here, and the loop
  guards compare the integer counter with them.
\<close>

definition RECONNECT_MAX_FAIL_COUNT :: rat where
  "RECONNECT_MAX_FAIL_COUNT =
     (of_nat HOUR_IN_SEC / of_nat RECONNECT_INTERVAL_IN_SEC) * of_nat MAX_FAIL_DURATION_IN_HOUR"

definition SWITCH_MAX_FAIL_COUNT :: rat where
  "SWITCH_MAX_FAIL_COUNT =
     (of_nat HOUR_IN_SEC / of_nat SWITCH_INTERVAL_IN_SEC) * of_nat MAX_FAIL_DURATION_IN_HOUR"

definition UPDATE_DEV_ENDPOINT_TIMEOUT_IN_SEC :: nat where
  "UPDATE_DEV_ENDPOINT_TIMEOUT_IN_SEC = 600"

definition LIVY_SERVER_TIMEOUT_IN_SEC :: nat where
  "LIVY_SERVER_TIMEOUT_IN_SEC = 300"

definition LIVY_PING_TIMEOUT_IN_SEC :: nat where
  "LIVY_PING_TIMEOUT_IN_SEC = 10"

definition WAIT_DEV_ENDPOINT_READY_INTERVAL_IN_SEC :: nat where
  "WAIT_DEV_ENDPOINT_READY_INTERVAL_IN_SEC = 5"

definition SSH_KEY_DIR :: string where
  "SSH_KEY_DIR = ''/home/ec2-user/glue/ssh/''"

definition SSH_KEY_NAME :: string where
  "SSH_KEY_NAME = ''glue_key''"

definition SSH_KEY_PRIVATE_PATH :: string where
  "SSH_KEY_PRIVATE_PATH = SSH_KEY_DIR @ SSH_KEY_NAME"

definition SSH_KEY_PUBLIC_PATH :: string where
  "SSH_KEY_PUBLIC_PATH = SSH_KEY_PRIVATE_PATH @ ''.pub''"

definition AUTO_SSH_HOST_PATH :: string where
  "AUTO_SSH_HOST_PATH = ''/home/ec2-user/glue/autossh.host''"

definition CURRENT_DEV_ENDPOINT_PATH :: string where
  "CURRENT_DEV_ENDPOINT_PATH = ''/home/ec2-user/glue/current_dev_endpoint''"

definition LIVY_SERVER_URL :: string where
  "LIVY_SERVER_URL = ''http://localhost:8998''"

definition COMPLETED :: string where
  "COMPLETED = ''COMPLETED''"

definition FAILED :: string where
  "FAILED = ''FAILED''"

section \<open>Data model\<close>

text \<open>
  The exceptions the script can meet. \<open>requests\<close> derives its exceptions from
  \<open>IOError\<close>; \<open>RequestsConnectionError\<close> is \<open>requests.exceptions.ConnectionError\<close>
  and \<open>RequestException\<close> any other exception of that library (a read timeout).
  \<open>ClientError\<close> stands for what the boto3 clients raise, \<open>CalledProcessError\<close> for a
  failed \<open>subprocess.check_output\<close>. All of them are subclasses of \<open>Exception\<close>.
\<close>

datatype error =
    IOError
  | ValueError string
  | KeyError string
  | RequestsConnectionError
  | RequestException
  | ClientError string
  | CalledProcessError

fun is_IOError :: "error \<Rightarrow> bool" where
  "is_IOError IOError = True"
| "is_IOError RequestsConnectionError = True"
| "is_IOError RequestException = True"
| "is_IOError _ = False"

fun is_ConnectionError :: "error \<Rightarrow> bool" where
  "is_ConnectionError RequestsConnectionError = True"
| "is_ConnectionError _ = False"

fun is_Exception :: "error \<Rightarrow> bool" where
  "is_Exception _ = True"

text \<open>
  The dictionary under the key \<open>DevEndpoint\<close> of a \<open>get_dev_endpoint\<close> response, with
  the five keys the script reads; \<open>None\<close> is an absent key.
\<close>

record dev_endpoint =
  PublicKey :: "string option"
  PublicKeys :: "string list option"
  LastUpdateStatus :: "string option"
  PrivateAddress :: "string option"
  PublicAddress :: "string option"

datatype level = INFO | WARNING | ERROR

text \<open>
  What the script does to the outside, in the order it does it. A \<open>Log\<close> event holds
  the level and the message as the source writes it (the f-string with its placeholders
  left in place).
\<close>

datatype event =
    Log level string
  | Sleep nat
  | GetDevEndpoint string
  | UpdateAddPublicKeys string "string list"
  | UpdateDeletePublicKeys string "string list"
  | ListTags string
  | AddTags string string
  | RequestsGet string nat
  | SubprocessCall "string list"
  | CheckOutput "string list"
  | FileWrite string string
  | FileRemove string
  | Mkdir string
  | Chmod string

text \<open>
  The state the script runs in: its two module globals, a clock in seconds (only
  \<open>time.sleep\<close> advances it), the local files and directories, the trace of events, and
  the environment. The environment answers each kind of external call from a sequence of
  replies of its own, \<open>f 0\<close> being the reply to the next call; a call consumes its reply.
  Any behaviour of the remote services, the tunnel, the disk and \<open>ssh-keygen\<close> is some
  choice of these sequences.
\<close>

record world =
  notebook_arn :: string
  notebook_name :: string
  clock :: nat
  files :: "string \<rightharpoonup> string"
  dirs :: "string set"
  trace :: "event list"
  io_faults :: "nat \<Rightarrow> bool"
  get_dev_endpoint_replies :: "nat \<Rightarrow> error + dev_endpoint"
  update_dev_endpoint_replies :: "nat \<Rightarrow> error option"
  list_tags_replies :: "nat \<Rightarrow> error + (string \<times> string) list"
  add_tags_replies :: "nat \<Rightarrow> error option"
  requests_get_replies :: "nat \<Rightarrow> error option"
  subprocess_call_replies :: "nat \<Rightarrow> error option"
  ssh_keygen_replies :: "nat \<Rightarrow> (string \<times> string) option"

type_synonym 'a io = "world \<Rightarrow> (error + 'a) \<times> world"

section \<open>Sequencing, raising and catching\<close>

definition return_io :: "'a \<Rightarrow> 'a io" where
  "return_io x w = (Inr x, w)"

definition raise_io :: "error \<Rightarrow> 'a io" where
  "raise_io e w = (Inl e, w)"

definition bind_io :: "'a io \<Rightarrow> ('a \<Rightarrow> 'b io) \<Rightarrow> 'b io" where
  "bind_io m f w = (case m w of (Inl e, w') \<Rightarrow> (Inl e, w') | (Inr x, w') \<Rightarrow> f x w')"

definition seq_io :: "'a io \<Rightarrow> 'b io \<Rightarrow> 'b io" where
  "seq_io m k = bind_io m (\<lambda>_. k)"

text \<open>\<open>try: body except C: handler\<close>, with the class \<open>C\<close> as a predicate on errors.\<close>

definition try_except :: "'a io \<Rightarrow> (error \<Rightarrow> bool) \<Rightarrow> (error \<Rightarrow> 'a io) \<Rightarrow> 'a io" where
  "try_except body cls handler w =
     (case body w of
        (Inl e, w') \<Rightarrow> if cls e then handler e w' else (Inl e, w')
      | (Inr x, w') \<Rightarrow> (Inr x, w'))"

section \<open>The external operations\<close>

definition emit :: "event \<Rightarrow> world \<Rightarrow> world" where
  "emit e w = w\<lparr>trace := trace w @ [e]\<rparr>"

definition logger :: "level \<Rightarrow> string \<Rightarrow> unit io" where
  "logger l msg w = (Inr (), emit (Log l msg) w)"

definition time_sleep :: "nat \<Rightarrow> unit io" where
  "time_sleep n w = (Inr (), emit (Sleep n) (w\<lparr>clock := clock w + n\<rparr>))"

definition os_path_exists :: "string \<Rightarrow> world \<Rightarrow> bool" where
  "os_path_exists p w = (files w p \<noteq> None \<or> p \<in> dirs w)"

definition next_io_fault :: "world \<Rightarrow> world" where
  "next_io_fault w = w\<lparr>io_faults := (\<lambda>n. io_faults w (Suc n))\<rparr>"

text \<open>\<open>open(p).read()\<close>: fails on a disk fault and on a missing file.\<close>

definition file_read :: "string \<Rightarrow> string io" where
  "file_read p w =
     (if io_faults w 0 then (Inl IOError, next_io_fault w)
      else case files w p of
             None \<Rightarrow> (Inl IOError, next_io_fault w)
           | Some s \<Rightarrow> (Inr s, next_io_fault w))"

text \<open>\<open>open(p, 'w').write(s)\<close>.\<close>

definition file_write :: "string \<Rightarrow> string \<Rightarrow> unit io" where
  "file_write p s w =
     (if io_faults w 0 then (Inl IOError, emit (FileWrite p s) (next_io_fault w))
      else (Inr (), emit (FileWrite p s) (next_io_fault (w\<lparr>files := (files w)(p \<mapsto> s)\<rparr>))))"

definition os_remove :: "string \<Rightarrow> unit io" where
  "os_remove p w =
     (if io_faults w 0 \<or> files w p = None then (Inl IOError, emit (FileRemove p) (next_io_fault w))
      else (Inr (), emit (FileRemove p) (next_io_fault (w\<lparr>files := (files w)(p := None)\<rparr>))))"

text \<open>\<open>pathlib.Path(p).mkdir(parents=True)\<close>: an existing path is an error.\<close>

definition path_mkdir :: "string \<Rightarrow> unit io" where
  "path_mkdir p w =
     (if io_faults w 0 \<or> os_path_exists p w then (Inl IOError, emit (Mkdir p) (next_io_fault w))
      else (Inr (), emit (Mkdir p) (next_io_fault (w\<lparr>dirs := insert p (dirs w)\<rparr>))))"

definition os_chmod :: "string \<Rightarrow> unit io" where
  "os_chmod p w =
     (if io_faults w 0 \<or> files w p = None then (Inl IOError, emit (Chmod p) (next_io_fault w))
      else (Inr (), emit (Chmod p) (next_io_fault w)))"

text \<open>\<open>subprocess.call(args)\<close>; the script ignores the return code.\<close>

definition subprocess_call :: "string list \<Rightarrow> unit io" where
  "subprocess_call args w =
     (let w' = emit (SubprocessCall args)
                 (w\<lparr>subprocess_call_replies := (\<lambda>n. subprocess_call_replies w (Suc n))\<rparr>)
      in case subprocess_call_replies w 0 of
           Some e \<Rightarrow> (Inl e, w')
         | None \<Rightarrow> (Inr (), w'))"

text \<open>
  \<open>subprocess.check_output(['/usr/bin/ssh-keygen', '-f', path, '-C', comment, '-N', ''])\<close>:
  on success the environment supplies the private key text and the public key material,
  and the public key file ends with the comment.
\<close>

definition ssh_keygen :: "string \<Rightarrow> string \<Rightarrow> unit io" where
  "ssh_keygen path comment w =
     (let w' = emit (CheckOutput [''/usr/bin/ssh-keygen'', ''-f'', path, ''-C'', comment, ''-N'', ''''])
                 (w\<lparr>ssh_keygen_replies := (\<lambda>n. ssh_keygen_replies w (Suc n))\<rparr>)
      in case ssh_keygen_replies w 0 of
           None \<Rightarrow> (Inl CalledProcessError, w')
         | Some (private, material) \<Rightarrow>
             (Inr (), w'\<lparr>files := (files w)(path \<mapsto> private,
                 path @ ''.pub'' \<mapsto> ''ssh-rsa '' @ material @ '' '' @ comment @ [CHR 0x0A])\<rparr>))"

definition glue_get_dev_endpoint :: "string \<Rightarrow> dev_endpoint io" where
  "glue_get_dev_endpoint name w =
     (get_dev_endpoint_replies w 0,
      emit (GetDevEndpoint name)
        (w\<lparr>get_dev_endpoint_replies := (\<lambda>n. get_dev_endpoint_replies w (Suc n))\<rparr>))"

definition next_update_reply :: "event \<Rightarrow> unit io" where
  "next_update_reply e w =
     (let w' = emit e (w\<lparr>update_dev_endpoint_replies := (\<lambda>n. update_dev_endpoint_replies w (Suc n))\<rparr>)
      in case update_dev_endpoint_replies w 0 of
           Some err \<Rightarrow> (Inl err, w')
         | None \<Rightarrow> (Inr (), w'))"

definition glue_add_public_keys :: "string \<Rightarrow> string list \<Rightarrow> unit io" where
  "glue_add_public_keys name keys = next_update_reply (UpdateAddPublicKeys name keys)"

definition glue_delete_public_keys :: "string \<Rightarrow> string list \<Rightarrow> unit io" where
  "glue_delete_public_keys name keys = next_update_reply (UpdateDeletePublicKeys name keys)"

definition sagemaker_list_tags :: "string \<Rightarrow> (string \<times> string) list io" where
  "sagemaker_list_tags arn w =
     (list_tags_replies w 0,
      emit (ListTags arn) (w\<lparr>list_tags_replies := (\<lambda>n. list_tags_replies w (Suc n))\<rparr>))"

definition sagemaker_add_tags :: "string \<Rightarrow> string \<Rightarrow> unit io" where
  "sagemaker_add_tags arn val w =
     (let w' = emit (AddTags arn val) (w\<lparr>add_tags_replies := (\<lambda>n. add_tags_replies w (Suc n))\<rparr>)
      in case add_tags_replies w 0 of
           Some err \<Rightarrow> (Inl err, w')
         | None \<Rightarrow> (Inr (), w'))"

definition requests_get :: "string \<Rightarrow> nat \<Rightarrow> unit io" where
  "requests_get url timeout w =
     (let w' = emit (RequestsGet url timeout)
                 (w\<lparr>requests_get_replies := (\<lambda>n. requests_get_replies w (Suc n))\<rparr>)
      in case requests_get_replies w 0 of
           Some err \<Rightarrow> (Inl err, w')
         | None \<Rightarrow> (Inr (), w'))"

section \<open>Local files\<close>

definition get_autossh_host :: "string io" where
  "get_autossh_host =
     try_except
       (bind_io (file_read AUTO_SSH_HOST_PATH) (\<lambda>autossh_host.
          if autossh_host \<noteq> [] then return_io autossh_host
          else raise_io (ValueError ''autossh_host is empty'')))
       is_IOError
       (\<lambda>e. seq_io (logger ERROR ''Failed to read autossh_host from {AUTO_SSH_HOST_PATH}'')
               (raise_io e))"

definition get_public_key :: "string io" where
  "get_public_key =
     try_except
       (bind_io (file_read SSH_KEY_PUBLIC_PATH) (\<lambda>public_key.
          if public_key \<noteq> [] then return_io public_key
          else raise_io (ValueError ''SSH public_key is empty'')))
       is_IOError
       (\<lambda>e. seq_io (logger ERROR ''Failed to read SSH public_key from {SSH_KEY_PUBLIC_PATH}'')
               (raise_io e))"

text \<open>
  \<open>get_current_dev_endpoint\<close>: the content of the binding file, \<open>None\<close> when the file
  is absent, and \<open>None\<close> as well, after a warning, when reading it raises \<open>IOError\<close>.
\<close>

definition get_current_dev_endpoint :: "string option io" where
  "get_current_dev_endpoint =
     try_except
       (\<lambda>w. if os_path_exists CURRENT_DEV_ENDPOINT_PATH w
            then bind_io (file_read CURRENT_DEV_ENDPOINT_PATH) (\<lambda>s. return_io (Some s)) w
            else return_io None w)
       is_IOError
       (\<lambda>e. seq_io (logger WARNING ''Failed to load current_dev_endpoint'') (return_io None))"

definition save_current_dev_endpoint :: "string \<Rightarrow> unit io" where
  "save_current_dev_endpoint dev_endpoint_name =
     seq_io (logger INFO ''Saving current_dev_endpoint={dev_endpoint_name}'')
       (try_except
          (seq_io (file_write CURRENT_DEV_ENDPOINT_PATH dev_endpoint_name)
             (logger INFO ''Saved current_dev_endpoint={dev_endpoint_name}''))
          is_IOError
          (\<lambda>e. seq_io (logger ERROR ''Failed to save current_dev_endpoint={dev_endpoint_name}'')
                  (raise_io e)))"

definition remove_dev_endpoint :: "string \<Rightarrow> unit io" where
  "remove_dev_endpoint dev_endpoint_name w =
     (if os_path_exists CURRENT_DEV_ENDPOINT_PATH w then
        seq_io (logger INFO ''Removing current_dev_endpoint={dev_endpoint_name}'')
          (try_except
             (seq_io (os_remove CURRENT_DEV_ENDPOINT_PATH)
                (logger INFO ''Removed current_dev_endpoint={dev_endpoint_name}''))
             is_IOError
             (\<lambda>e. seq_io (logger ERROR ''Failed to remove current_dev_endpoint={dev_endpoint_name}'')
                     (raise_io e))) w
      else logger INFO ''current_dev_endpoint={dev_endpoint_name} absent'' w)"

section \<open>Desired target, tunnel and key pair\<close>

definition get_latest_dev_endpoint :: "string io" where
  "get_latest_dev_endpoint w =
     bind_io (sagemaker_list_tags (notebook_arn w)) (\<lambda>dev_endpoint_tags.
       case filter (\<lambda>x. fst x = ''aws-glue-dev-endpoint'') dev_endpoint_tags of
         [] \<Rightarrow> raise_io (ValueError ''Unable to get latest DevEndpoint from notebook tag'')
       | x # _ \<Rightarrow> return_io (snd x)) w"

definition start_autossh :: "unit io" where
  "start_autossh =
     bind_io get_autossh_host (\<lambda>autossh_host.
       seq_io (logger INFO ''Starting autossh tunnel to Livy {autossh_host}'')
      (seq_io (subprocess_call [''/usr/bin/sudo'', ''/sbin/initctl'', ''reload-configuration''])
      (seq_io (subprocess_call [''/usr/bin/sudo'', ''/sbin/initctl'', ''start'', ''autossh''])
              (logger INFO ''Started autossh tunnel to Livy {autossh_host}''))))"

definition stop_autossh :: "unit io" where
  "stop_autossh =
     bind_io get_autossh_host (\<lambda>autossh_host.
       seq_io (logger INFO ''Stopping autossh tunnel from Livy {autossh_host}'')
      (seq_io (subprocess_call [''/usr/bin/sudo'', ''/sbin/initctl'', ''stop'', ''autossh''])
              (logger INFO ''Stopped autossh tunnel from Livy {autossh_host}'')))"

definition ping_livy :: "unit io" where
  "ping_livy =
     seq_io (logger INFO ''Pinging Livy...'')
    (seq_io (requests_get LIVY_SERVER_URL LIVY_SERVER_TIMEOUT_IN_SEC)
            (logger INFO ''Pinged Livy''))"

definition generate_ssh_keypair :: "unit io" where
  "generate_ssh_keypair =
     seq_io (logger INFO ''Generating SSH keypair at {SSH_KEY_PRIVATE_PATH}'')
    (seq_io (\<lambda>w.
        if os_path_exists SSH_KEY_DIR w then
          (if os_path_exists SSH_KEY_PRIVATE_PATH w then
             bind_io get_public_key (\<lambda>public_key.
               seq_io (logger WARNING ''Removing current SSH keypair {public_key}'')
              (seq_io (os_remove SSH_KEY_PRIVATE_PATH)
                      (logger WARNING ''Removed current SSH keypair {public_key}''))) w
           else return_io () w)
        else
          seq_io (logger INFO ''Creating directory at {SSH_KEY_DIR}'')
         (seq_io (path_mkdir SSH_KEY_DIR)
                 (logger INFO ''Created directory at {SSH_KEY_DIR}'')) w)
    (seq_io (\<lambda>w. ssh_keygen SSH_KEY_PRIVATE_PATH (notebook_name w) w)
    (seq_io (logger INFO ''{ssh-keygen output}'')
    (seq_io (os_chmod SSH_KEY_PRIVATE_PATH)
    (bind_io get_public_key (\<lambda>public_key.
       logger INFO ''Generated SSH keypair {public_key}''))))))"

section \<open>Waiting for the endpoint\<close>

text \<open>The first three statements of the loop body: log, sleep, describe.\<close>

definition poll_dev_endpoint :: "string \<Rightarrow> dev_endpoint io" where
  "poll_dev_endpoint dev_endpoint_name =
     seq_io (logger INFO ''Waiting dev_endpoint={dev_endpoint_name} ready'')
    (seq_io (time_sleep WAIT_DEV_ENDPOINT_READY_INTERVAL_IN_SEC)
            (glue_get_dev_endpoint dev_endpoint_name))"

lemma clock_poll_dev_endpoint:
  "clock (snd (poll_dev_endpoint n w)) = clock w + WAIT_DEV_ENDPOINT_READY_INTERVAL_IN_SEC"
  by (simp add: poll_dev_endpoint_def seq_io_def bind_io_def logger_def time_sleep_def
      glue_get_dev_endpoint_def emit_def)

lemma poll_dev_endpoint_measure:
  assumes "clock w - start < UPDATE_DEV_ENDPOINT_TIMEOUT_IN_SEC"
    and "(r, w') = poll_dev_endpoint n w"
  shows "UPDATE_DEV_ENDPOINT_TIMEOUT_IN_SEC + start - clock w'
           < UPDATE_DEV_ENDPOINT_TIMEOUT_IN_SEC + start - clock w"
proof -
  have "clock w' = clock w + WAIT_DEV_ENDPOINT_READY_INTERVAL_IN_SEC"
    using clock_poll_dev_endpoint [of n w] assms(2) [symmetric] by simp
  with assms(1) show ?thesis
    by (simp add: WAIT_DEV_ENDPOINT_READY_INTERVAL_IN_SEC_def)
qed

text \<open>
  The \<open>while ... else\<close> loop of \<open>wait_dev_endpoint_ready\<close>, \<open>start\<close> being the time
  read before it: the \<open>else\<close> branch runs when the guard fails, not after a \<open>break\<close>.
\<close>

function wait_loop :: "string \<Rightarrow> nat \<Rightarrow> world \<Rightarrow> (error + unit) \<times> world" where
  "wait_loop dev_endpoint_name start w =
     (if clock w - start < UPDATE_DEV_ENDPOINT_TIMEOUT_IN_SEC then
        (case poll_dev_endpoint dev_endpoint_name w of
           (Inl e, w') \<Rightarrow> (Inl e, w')
         | (Inr dev_endpoint, w') \<Rightarrow>
             (case LastUpdateStatus dev_endpoint of
                None \<Rightarrow> (Inr (), w')
              | Some status \<Rightarrow>
                  if status = COMPLETED then
                    logger INFO ''dev_endpoint={dev_endpoint_name} ready'' w'
                  else if status = FAILED then
                    (Inl (ValueError (''LastUpdateStatus is FAILED, dev_endpoint='' @ dev_endpoint_name)), w')
                  else wait_loop dev_endpoint_name start w'))
      else logger ERROR ''Wait dev_endpoint={dev_endpoint_name} ready timeout'' w)"
  by pat_completeness auto
termination
  by (relation "measure (\<lambda>(n, start, w). UPDATE_DEV_ENDPOINT_TIMEOUT_IN_SEC + start - clock w)")
     (auto intro: poll_dev_endpoint_measure)

declare wait_loop.simps [simp del]

definition wait_dev_endpoint_ready :: "string \<Rightarrow> unit io" where
  "wait_dev_endpoint_ready dev_endpoint_name w = wait_loop dev_endpoint_name (clock w) w"

section \<open>Registering and revoking keys\<close>

definition add_public_key :: "string \<Rightarrow> unit io" where
  "add_public_key dev_endpoint_name =
     bind_io get_public_key (\<lambda>public_key.
     seq_io (wait_dev_endpoint_ready dev_endpoint_name)
    (seq_io (logger INFO ''Adding public_key={public_key} to dev_endpoint={dev_endpoint_name}'')
    (seq_io (glue_add_public_keys dev_endpoint_name [public_key])
    (seq_io (wait_dev_endpoint_ready dev_endpoint_name)
    (seq_io (logger INFO ''Added public_key={public_key} to dev_endpoint={dev_endpoint_name}'')
    (bind_io (glue_get_dev_endpoint dev_endpoint_name) (\<lambda>dev_endpoint.
     seq_io (logger INFO ''Dev endpoint details are {dev_endpoint}'')
    (bind_io
       (case PrivateAddress dev_endpoint of
          Some a \<Rightarrow> return_io a
        | None \<Rightarrow>
            (case PublicAddress dev_endpoint of
               Some a \<Rightarrow> return_io a
             | None \<Rightarrow> raise_io (KeyError ''PublicAddress'')))
       (\<lambda>dev_endpoint_address.
     seq_io (logger INFO
       ''Saving dev_endpoint={dev_endpoint_name} {dev_endpoint_type} {dev_endpoint_address} to {AUTO_SSH_HOST_PATH}'')
    (seq_io (file_write AUTO_SSH_HOST_PATH dev_endpoint_address)
            (logger INFO
       ''Saved dev_endpoint={dev_endpoint_name} {dev_endpoint_type} {dev_endpoint_address} to {AUTO_SSH_HOST_PATH}'')))))))))))"

text \<open>
  The list \<open>public_keys_to_delete\<close> that \<open>delete_public_keys_if_has\<close> builds from the
  described endpoint; Python's \<open>a in b\<close> on strings is \<open>sublist a b\<close>.
\<close>

definition public_keys_to_delete :: "string \<Rightarrow> dev_endpoint \<Rightarrow> string list" where
  "public_keys_to_delete nb_name dev_endpoint =
     (case PublicKey dev_endpoint of Some k \<Rightarrow> [k] | None \<Rightarrow> []) @
     (case PublicKeys dev_endpoint of
        Some ks \<Rightarrow> filter (\<lambda>public_key. sublist nb_name public_key) ks
      | None \<Rightarrow> [])"

definition delete_public_keys :: "string \<Rightarrow> string list \<Rightarrow> unit io" where
  "delete_public_keys dev_endpoint_name keys =
     seq_io (wait_dev_endpoint_ready dev_endpoint_name)
       (if keys \<noteq> [] then
          seq_io (logger INFO
            ''Deleting public_keys={public_keys_to_delete} from dev_endpoint={dev_endpoint_name}'')
         (seq_io (glue_delete_public_keys dev_endpoint_name keys)
         (seq_io (wait_dev_endpoint_ready dev_endpoint_name)
                 (logger INFO
            ''Deleted public_keys={public_keys_to_delete} from dev_endpoint={dev_endpoint_name}'')))
        else logger INFO ''No Public Keys to delete from dev_endpoint={dev_endpoint_name}'')"

definition delete_public_keys_if_has :: "string \<Rightarrow> unit io" where
  "delete_public_keys_if_has dev_endpoint_name =
     try_except
       (bind_io (glue_get_dev_endpoint dev_endpoint_name) (\<lambda>dev_endpoint w.
          delete_public_keys dev_endpoint_name
            (public_keys_to_delete (notebook_name w) dev_endpoint) w))
       is_Exception
       (\<lambda>e. logger ERROR ''Failed to delete Public Keys from dev_endpoint={dev_endpoint_name}'')"

definition has_public_key :: "dev_endpoint \<Rightarrow> bool io" where
  "has_public_key dev_endpoint =
     bind_io get_public_key (\<lambda>current_public_key.
       if (case PublicKey dev_endpoint of
             Some k \<Rightarrow> sublist current_public_key k
           | None \<Rightarrow> False)
       then return_io True
       else (case PublicKeys dev_endpoint of
               Some ks \<Rightarrow>
                 return_io (list_ex (\<lambda>public_key. sublist current_public_key public_key) ks)
             | None \<Rightarrow> return_io False))"

section \<open>Liveness, update status and the observability tag\<close>

definition is_dev_endpoint_connected :: "bool io" where
  "is_dev_endpoint_connected =
     try_except
       (seq_io (requests_get LIVY_SERVER_URL LIVY_PING_TIMEOUT_IN_SEC) (return_io True))
       is_ConnectionError
       (\<lambda>e. return_io False)"

definition is_dev_endpoint_updating :: "dev_endpoint \<Rightarrow> bool" where
  "is_dev_endpoint_updating dev_endpoint =
     (case LastUpdateStatus dev_endpoint of
        None \<Rightarrow> False
      | Some status \<Rightarrow> status \<noteq> COMPLETED \<and> status \<noteq> FAILED)"

definition update_connection_tag :: "string \<Rightarrow> unit io" where
  "update_connection_tag tag_value =
     try_except
       (\<lambda>w. sagemaker_add_tags (notebook_arn w) tag_value w)
       is_Exception
       (\<lambda>e. logger ERROR ''Failed to update connection tag to {tag_value}'')"

section \<open>Connection protocol\<close>

definition connect_dev_endpoint :: "string \<Rightarrow> unit io" where
  "connect_dev_endpoint dev_endpoint_name =
     seq_io (logger INFO ''Connecting to dev_endpoint={dev_endpoint_name}'')
    (seq_io (delete_public_keys_if_has dev_endpoint_name)
    (seq_io generate_ssh_keypair
    (seq_io (add_public_key dev_endpoint_name)
    (seq_io start_autossh
    (seq_io (logger INFO ''Waiting {LIVY_PING_TIMEOUT_IN_SEC} seconds for tunnel ready'')
    (seq_io (time_sleep LIVY_PING_TIMEOUT_IN_SEC)
    (seq_io ping_livy
    (seq_io (save_current_dev_endpoint dev_endpoint_name)
    (seq_io (update_connection_tag ''ready'')
            (logger INFO ''Connected to dev_endpoint={dev_endpoint_name}''))))))))))"

definition disconnect_dev_endpoint :: "string \<Rightarrow> unit io" where
  "disconnect_dev_endpoint dev_endpoint_name =
     seq_io (logger INFO ''Disconnecting from dev_endpoint={dev_endpoint_name}'')
    (seq_io (delete_public_keys_if_has dev_endpoint_name)
    (seq_io stop_autossh
    (seq_io (update_connection_tag ''disconnected'')
            (logger INFO ''Disconnected from dev_endpoint={dev_endpoint_name}''))))"

text \<open>
  \<open>reconnect_dev_endpoint\<close>; its argument is what \<open>get_current_dev_endpoint\<close> returned.
  The last three statements of the source (disconnect, connect, log) are \<open>full_repair\<close>:
  they run when the key is absent, and when the tunnel restart did not help.
\<close>

definition full_repair :: "string \<Rightarrow> unit io" where
  "full_repair dev_endpoint_name =
     seq_io (disconnect_dev_endpoint dev_endpoint_name)
    (seq_io (connect_dev_endpoint dev_endpoint_name)
            (logger INFO ''dev_endpoint={dev_endpoint_name} reconnected now''))"

definition reconnect_dev_endpoint :: "string option \<Rightarrow> unit io" where
  "reconnect_dev_endpoint current =
     (case current of
        None \<Rightarrow> logger WARNING ''current_dev_endpoint absent''
      | Some dev_endpoint_name \<Rightarrow>
          if dev_endpoint_name = [] then logger WARNING ''current_dev_endpoint absent''
          else
            bind_io is_dev_endpoint_connected (\<lambda>connected.
              if connected then logger INFO ''dev_endpoint={dev_endpoint_name} is connected''
              else
                seq_io (logger WARNING
                  ''dev_endpoint={dev_endpoint_name} disconnected, trying to reconnect...'')
               (bind_io (glue_get_dev_endpoint dev_endpoint_name) (\<lambda>dev_endpoint.
                  if is_dev_endpoint_updating dev_endpoint then
                    logger WARNING ''dev_endpoint={dev_endpoint_name} is updating, re-check in next round''
                  else
                    bind_io (has_public_key dev_endpoint) (\<lambda>public_key_present.
                      if public_key_present then
                        seq_io (logger INFO
                          ''Public Key is in dev_endpoint={dev_endpoint_name}, restarting autossh...'')
                       (seq_io stop_autossh
                       (seq_io start_autossh
                       (bind_io is_dev_endpoint_connected (\<lambda>connected_now.
                          if connected_now then
                            logger INFO ''dev_endpoint={dev_endpoint_name} reconnected now''
                          else
                            seq_io (logger WARNING
                              ''dev_endpoint={dev_endpoint_name} still disconnected after restarting autossh, reconnecting...'')
                              (full_repair dev_endpoint_name)))))
                      else
                        seq_io (logger INFO
                          ''Public Key is not in dev_endpoint={dev_endpoint_name}, reconnecting...'')
                          (full_repair dev_endpoint_name))))))"

section \<open>The two daemons\<close>

text \<open>The body of the \<open>try\<close> of \<open>reconnect_daemon\<close>, up to the reset of the counter.\<close>

definition reconnect_tick :: "unit io" where
  "reconnect_tick =
     bind_io get_current_dev_endpoint (\<lambda>current_dev_endpoint.
       reconnect_dev_endpoint current_dev_endpoint)"

text \<open>
  One pass through the \<open>while\<close> body of \<open>reconnect_daemon\<close>; its value is the new
  \<open>failed_count\<close>.
\<close>

definition reconnect_daemon_iteration :: "nat \<Rightarrow> nat io" where
  "reconnect_daemon_iteration failed_count =
     seq_io (logger INFO ''reconnect_daemon checking'')
    (bind_io
       (try_except
          (seq_io reconnect_tick (return_io 0))
          is_Exception
          (\<lambda>e. seq_io (logger ERROR ''reconnect_daemon failed_count={failed_count}'')
                  (return_io (failed_count + 1))))
       (\<lambda>failed_count'.
          seq_io (time_sleep RECONNECT_INTERVAL_IN_SEC) (return_io failed_count')))"

partial_function (option) reconnect_daemon_loop ::
    "nat \<Rightarrow> world \<Rightarrow> ((error + nat) \<times> world) option" where
  "reconnect_daemon_loop failed_count w =
     (if of_nat failed_count < RECONNECT_MAX_FAIL_COUNT then
        (case reconnect_daemon_iteration failed_count w of
           (Inl e, w') \<Rightarrow> Some (Inl e, w')
         | (Inr failed_count', w') \<Rightarrow> reconnect_daemon_loop failed_count' w')
      else Some (Inr failed_count, w))"

definition reconnect_daemon :: "world \<Rightarrow> ((error + unit) \<times> world) option" where
  "reconnect_daemon w =
     (case reconnect_daemon_loop 0 (snd (logger INFO ''reconnect_daemon started'' w)) of
        None \<Rightarrow> None
      | Some (Inl e, w') \<Rightarrow> Some (Inl e, w')
      | Some (Inr failed_count, w') \<Rightarrow>
          Some (logger ERROR ''reconnect_daemon stopped, failed_count={failed_count}'' w'))"

text \<open>The body of the \<open>try\<close> of \<open>switch_daemon\<close>, up to the reset of the counter.\<close>

definition switch_tick :: "unit io" where
  "switch_tick =
     bind_io get_current_dev_endpoint (\<lambda>current_dev_endpoint.
     bind_io get_latest_dev_endpoint (\<lambda>latest_dev_endpoint.
       if current_dev_endpoint \<noteq> Some latest_dev_endpoint then
         seq_io (logger INFO
           ''dev_endpoint changing from {current_dev_endpoint} to {latest_dev_endpoint}'')
        (seq_io
           (case current_dev_endpoint of
              None \<Rightarrow> return_io ()
            | Some current \<Rightarrow>
                if current \<noteq> [] then
                  seq_io (remove_dev_endpoint current) (disconnect_dev_endpoint current)
                else return_io ())
        (seq_io
           (if latest_dev_endpoint \<noteq> [] then connect_dev_endpoint latest_dev_endpoint
            else return_io ())
           (logger INFO
              ''dev_endpoint changed from {current_dev_endpoint} to {latest_dev_endpoint}'')))
       else logger INFO ''dev_endpoint={latest_dev_endpoint} not changed''))"

definition switch_daemon_iteration :: "nat \<Rightarrow> nat io" where
  "switch_daemon_iteration failed_count =
     seq_io (logger INFO ''switch_daemon checking'')
    (bind_io
       (try_except
          (seq_io switch_tick (return_io 0))
          is_Exception
          (\<lambda>e. seq_io (logger ERROR ''switch_daemon failed_count={failed_count}'')
                  (return_io (failed_count + 1))))
       (\<lambda>failed_count'.
          seq_io (time_sleep SWITCH_INTERVAL_IN_SEC) (return_io failed_count')))"

partial_function (option) switch_daemon_loop ::
    "nat \<Rightarrow> world \<Rightarrow> ((error + nat) \<times> world) option" where
  "switch_daemon_loop failed_count w =
     (if of_nat failed_count < SWITCH_MAX_FAIL_COUNT then
        (case switch_daemon_iteration failed_count w of
           (Inl e, w') \<Rightarrow> Some (Inl e, w')
         | (Inr failed_count', w') \<Rightarrow> switch_daemon_loop failed_count' w')
      else Some (Inr failed_count, w))"

definition switch_daemon :: "world \<Rightarrow> ((error + unit) \<times> world) option" where
  "switch_daemon w =
     (case switch_daemon_loop 0 (snd (logger INFO ''switch_daemon started'' w)) of
        None \<Rightarrow> None
      | Some (Inl e, w') \<Rightarrow> Some (Inl e, w')
      | Some (Inr failed_count, w') \<Rightarrow>
          Some (logger ERROR ''switch_daemon stopped, failed_count={failed_count}'' w'))"

section \<open>Reasoning about the model\<close>

lemmas io_defs = return_io_def raise_io_def bind_io_def seq_io_def try_except_def logger_def
  time_sleep_def emit_def next_io_fault_def file_read_def file_write_def os_remove_def
  path_mkdir_def os_chmod_def subprocess_call_def ssh_keygen_def glue_get_dev_endpoint_def
  next_update_reply_def glue_add_public_keys_def glue_delete_public_keys_def
  sagemaker_list_tags_def sagemaker_add_tags_def requests_get_def os_path_exists_def Let_def

lemmas const_defs = SSH_KEY_DIR_def SSH_KEY_NAME_def SSH_KEY_PRIVATE_PATH_def
  SSH_KEY_PUBLIC_PATH_def AUTO_SSH_HOST_PATH_def CURRENT_DEV_ENDPOINT_PATH_def
  LIVY_SERVER_URL_def COMPLETED_def FAILED_def UPDATE_DEV_ENDPOINT_TIMEOUT_IN_SEC_def
  LIVY_SERVER_TIMEOUT_IN_SEC_def LIVY_PING_TIMEOUT_IN_SEC_def
  WAIT_DEV_ENDPOINT_READY_INTERVAL_IN_SEC_def

subsection \<open>Invariants of operations\<close>

definition preserves :: "(world \<Rightarrow> bool) \<Rightarrow> 'a io \<Rightarrow> bool" where
  "preserves I m = (\<forall>w. I w \<longrightarrow> I (snd (m w)))"

lemma preservesD: "preserves I m \<Longrightarrow> I w \<Longrightarrow> I (snd (m w))"
  by (simp add: preserves_def)

lemma preserves_return: "preserves I (return_io x)"
  by (simp add: preserves_def return_io_def)

lemma preserves_raise: "preserves I (raise_io e)"
  by (simp add: preserves_def raise_io_def)

lemma preserves_bind:
  assumes "preserves I m" and "\<And>x. preserves I (f x)"
  shows "preserves I (bind_io m f)"
  unfolding preserves_def
proof (intro allI impI)
  fix w assume "I w"
  with assms(1) have m: "I (snd (m w))" by (rule preservesD)
  show "I (snd (bind_io m f w))"
  proof (cases "m w")
    case (Pair r w')
    with m have w': "I w'" by simp
    show ?thesis
    proof (cases r)
      case (Inl e)
      with Pair w' show ?thesis by (simp add: bind_io_def)
    next
      case (Inr x)
      from assms(2) w' have "I (snd (f x w'))" by (rule preservesD)
      with Pair Inr show ?thesis by (simp add: bind_io_def)
    qed
  qed
qed

lemma preserves_seq: "preserves I m \<Longrightarrow> preserves I k \<Longrightarrow> preserves I (seq_io m k)"
  by (simp add: seq_io_def preserves_bind)

lemma preserves_try_except:
  assumes "preserves I m" and "\<And>e. preserves I (h e)"
  shows "preserves I (try_except m cls h)"
  unfolding preserves_def
proof (intro allI impI)
  fix w assume "I w"
  with assms(1) have m: "I (snd (m w))" by (rule preservesD)
  show "I (snd (try_except m cls h w))"
  proof (cases "m w")
    case (Pair r w')
    with m have w': "I w'" by simp
    show ?thesis
    proof (cases r)
      case (Inl e)
      from assms(2) w' have "I (snd (h e w'))" by (rule preservesD)
      with Pair Inl w' show ?thesis by (simp add: try_except_def)
    next
      case (Inr x)
      with Pair w' show ?thesis by (simp add: try_except_def)
    qed
  qed
qed

lemma preserves_if: "preserves I a \<Longrightarrow> preserves I b \<Longrightarrow> preserves I (if c then a else b)"
  by simp

lemma preserves_if_world:
  "preserves I a \<Longrightarrow> preserves I b \<Longrightarrow> preserves I (\<lambda>w. if c w then a w else b w)"
  by (simp add: preserves_def)

lemma preserves_case_option:
  "preserves I a \<Longrightarrow> (\<And>x. preserves I (b x)) \<Longrightarrow> preserves I (case v of None \<Rightarrow> a | Some x \<Rightarrow> b x)"
  by (cases v) simp_all

lemma preserves_case_list:
  "preserves I a \<Longrightarrow> (\<And>x xs. preserves I (b x xs)) \<Longrightarrow> preserves I (case v of [] \<Rightarrow> a | x # xs \<Rightarrow> b x xs)"
  by (cases v) simp_all

lemmas preserves_intros = preserves_return preserves_raise preserves_bind preserves_seq
  preserves_try_except preserves_if preserves_if_world preserves_case_option preserves_case_list

text \<open>
  An invariant is \<open>quiet\<close> when every operation that neither writes nor removes a file
  and does not run ssh-keygen keeps it, except \<open>requests.get\<close>.
\<close>

definition quiet :: "(world \<Rightarrow> bool) \<Rightarrow> bool" where
  "quiet I =
     ((\<forall>l msg. preserves I (logger l msg)) \<and>
      (\<forall>n. preserves I (time_sleep n)) \<and>
      (\<forall>p. preserves I (file_read p)) \<and>
      (\<forall>args. preserves I (subprocess_call args)) \<and>
      (\<forall>n. preserves I (glue_get_dev_endpoint n)) \<and>
      (\<forall>n keys. preserves I (glue_add_public_keys n keys)) \<and>
      (\<forall>n keys. preserves I (glue_delete_public_keys n keys)) \<and>
      (\<forall>arn. preserves I (sagemaker_list_tags arn)) \<and>
      (\<forall>arn v. preserves I (sagemaker_add_tags arn v)))"

lemma quiet_logger: "quiet I \<Longrightarrow> preserves I (logger l msg)"
  and quiet_time_sleep: "quiet I \<Longrightarrow> preserves I (time_sleep n)"
  and quiet_file_read: "quiet I \<Longrightarrow> preserves I (file_read p)"
  and quiet_subprocess_call: "quiet I \<Longrightarrow> preserves I (subprocess_call args)"
  and quiet_glue_get: "quiet I \<Longrightarrow> preserves I (glue_get_dev_endpoint name)"
  and quiet_glue_add: "quiet I \<Longrightarrow> preserves I (glue_add_public_keys name keys)"
  and quiet_glue_delete: "quiet I \<Longrightarrow> preserves I (glue_delete_public_keys name keys)"
  and quiet_list_tags: "quiet I \<Longrightarrow> preserves I (sagemaker_list_tags arn)"
  and quiet_add_tags: "quiet I \<Longrightarrow> preserves I (sagemaker_add_tags arn v)"
  by (simp_all add: quiet_def)

lemmas quiet_prims = quiet_logger quiet_time_sleep quiet_file_read quiet_subprocess_call
  quiet_glue_get quiet_glue_add quiet_glue_delete quiet_list_tags quiet_add_tags

lemma quiet_poll: "quiet I \<Longrightarrow> preserves I (poll_dev_endpoint n)"
  unfolding poll_dev_endpoint_def by (intro preserves_intros quiet_prims)

lemma quiet_wait_loop:
  assumes q: "quiet I"
  shows "I w \<Longrightarrow> I (snd (wait_loop n start w))"
proof (induction n start w rule: wait_loop.induct)
  case (1 n start w)
  from q have lg: "\<And>l msg w. I w \<Longrightarrow> I (snd (logger l msg w))"
    by (blast dest: quiet_logger preservesD)
  show ?case
  proof (cases "clock w - start < UPDATE_DEV_ENDPOINT_TIMEOUT_IN_SEC")
    case False
    with "1.prems" show ?thesis by (simp add: wait_loop.simps [of n start w] lg)
  next
    case True
    obtain r w' where p: "poll_dev_endpoint n w = (r, w')" by (cases "poll_dev_endpoint n w")
    from quiet_poll [OF q] "1.prems" have "I (snd (poll_dev_endpoint n w))" by (rule preservesD)
    with p have w': "I w'" by simp
    show ?thesis
    proof (cases r)
      case (Inl e)
      with True p w' show ?thesis by (simp add: wait_loop.simps [of n start w])
    next
      case (Inr ep)
      show ?thesis
      proof (cases "LastUpdateStatus ep")
        case None
        with True p Inr w' show ?thesis by (simp add: wait_loop.simps [of n start w])
      next
        case (Some status)
        show ?thesis
        proof (cases "status = COMPLETED \<or> status = FAILED")
          case True
          with \<open>clock w - start < _\<close> p Inr Some w' show ?thesis
            by (auto simp add: wait_loop.simps [of n start w] lg)
        next
          case False
          then have "I (snd (wait_loop n start w'))"
            using "1.IH" [OF \<open>clock w - start < _\<close> p [symmetric] Inr Some _ _ w'] by simp
          with \<open>clock w - start < _\<close> p Inr Some False show ?thesis
            by (simp add: wait_loop.simps [of n start w])
        qed
      qed
    qed
  qed
qed

lemma quiet_wait: "quiet I \<Longrightarrow> preserves I (wait_dev_endpoint_ready n)"
  by (simp add: preserves_def wait_dev_endpoint_ready_def quiet_wait_loop)

lemma quiet_delete_public_keys: "quiet I \<Longrightarrow> preserves I (delete_public_keys n keys)"
  unfolding delete_public_keys_def
  by (intro preserves_intros quiet_prims quiet_wait)

lemma quiet_delete_public_keys_if_has:
  assumes "quiet I"
  shows "preserves I (delete_public_keys_if_has n)"
proof -
  have "preserves I (\<lambda>w. delete_public_keys n (public_keys_to_delete (notebook_name w) ep) w)"
    for ep
    using quiet_delete_public_keys [OF assms] by (simp add: preserves_def)
  with assms show ?thesis
    unfolding delete_public_keys_if_has_def by (intro preserves_intros quiet_prims)
qed

lemma quiet_get_public_key: "quiet I \<Longrightarrow> preserves I get_public_key"
  unfolding get_public_key_def by (intro preserves_intros quiet_prims)

lemma quiet_get_autossh_host: "quiet I \<Longrightarrow> preserves I get_autossh_host"
  unfolding get_autossh_host_def by (intro preserves_intros quiet_prims)

lemma quiet_get_current_dev_endpoint: "quiet I \<Longrightarrow> preserves I get_current_dev_endpoint"
  unfolding get_current_dev_endpoint_def by (intro preserves_intros quiet_prims)

lemma quiet_get_latest_dev_endpoint:
  assumes "quiet I"
  shows "preserves I get_latest_dev_endpoint"
proof -
  have "preserves I (bind_io (sagemaker_list_tags arn) (\<lambda>dev_endpoint_tags.
       case filter (\<lambda>x. fst x = ''aws-glue-dev-endpoint'') dev_endpoint_tags of
         [] \<Rightarrow> raise_io (ValueError ''Unable to get latest DevEndpoint from notebook tag'')
       | x # _ \<Rightarrow> return_io (snd x)))" for arn
    using assms by (intro preserves_intros quiet_prims)
  then show ?thesis
    by (simp add: preserves_def get_latest_dev_endpoint_def)
qed

lemma quiet_start_autossh: "quiet I \<Longrightarrow> preserves I start_autossh"
  unfolding start_autossh_def by (intro preserves_intros quiet_prims quiet_get_autossh_host)

lemma quiet_stop_autossh: "quiet I \<Longrightarrow> preserves I stop_autossh"
  unfolding stop_autossh_def by (intro preserves_intros quiet_prims quiet_get_autossh_host)

lemma quiet_update_connection_tag:
  assumes "quiet I"
  shows "preserves I (update_connection_tag v)"
proof -
  have "preserves I (\<lambda>w. sagemaker_add_tags (notebook_arn w) v w)"
    using quiet_add_tags [OF assms] by (simp add: preserves_def)
  with assms show ?thesis
    unfolding update_connection_tag_def by (intro preserves_intros quiet_prims)
qed

lemma quiet_has_public_key: "quiet I \<Longrightarrow> preserves I (has_public_key ep)"
  unfolding has_public_key_def by (intro preserves_intros quiet_get_public_key)

lemma quiet_disconnect: "quiet I \<Longrightarrow> preserves I (disconnect_dev_endpoint n)"
  unfolding disconnect_dev_endpoint_def
  by (intro preserves_intros quiet_prims quiet_delete_public_keys_if_has quiet_stop_autossh
      quiet_update_connection_tag)


subsection \<open>Worlds used as concrete inputs\<close>

definition idle_endpoint :: dev_endpoint where
  "idle_endpoint = \<lparr>PublicKey = None, PublicKeys = None, LastUpdateStatus = None,
     PrivateAddress = Some ''10.0.0.1'', PublicAddress = None\<rparr>"

text \<open>
  A fresh notebook named \<open>nb\<close> in a friendly environment: nothing on disk, every call
  succeeds, the endpoint is idle and the notebook's tag names the endpoint \<open>epA\<close>.
\<close>

definition fresh_world :: world where
  "fresh_world = \<lparr>notebook_arn = ''arn'', notebook_name = ''nb'', clock = 0, files = Map.empty,
     dirs = {}, trace = [], io_faults = (\<lambda>_. False),
     get_dev_endpoint_replies = (\<lambda>_. Inr idle_endpoint),
     update_dev_endpoint_replies = (\<lambda>_. None),
     list_tags_replies = (\<lambda>_. Inr [(''aws-glue-dev-endpoint'', ''epA'')]),
     add_tags_replies = (\<lambda>_. None),
     requests_get_replies = (\<lambda>_. None),
     subprocess_call_replies = (\<lambda>_. None),
     ssh_keygen_replies = (\<lambda>_. Some (''PRIVATE'', ''AAAA''))\<rparr>"

subsection \<open>Key ownership\<close>

lemma prefix_trace_quiet: "quiet (\<lambda>w. prefix t (trace w))"
  by (auto simp add: quiet_def preserves_def io_defs prefix_def split: option.splits)

lemma wait_trace_grows: "prefix (trace w) (trace (snd (wait_dev_endpoint_ready n w)))"
  using quiet_wait [OF prefix_trace_quiet, of "trace w" n] by (simp add: preserves_def)

lemma delete_public_keys_if_has_request:
  assumes "get_dev_endpoint_replies w 0 = Inr ep"
    and "wait_dev_endpoint_ready n (snd (glue_get_dev_endpoint n w)) = (Inr (), w2)"
    and "public_keys_to_delete (notebook_name w) ep \<noteq> []"
  shows "prefix (trace w2 @
            [Log INFO ''Deleting public_keys={public_keys_to_delete} from dev_endpoint={dev_endpoint_name}'',
             UpdateDeletePublicKeys n (public_keys_to_delete (notebook_name w) ep)])
           (trace (snd (delete_public_keys_if_has n w)))"
proof -
  let ?keys = "public_keys_to_delete (notebook_name w) ep"
  let ?w1 = "snd (glue_get_dev_endpoint n w)"
  let ?w3 = "snd (glue_delete_public_keys n ?keys (snd (logger INFO
      ''Deleting public_keys={public_keys_to_delete} from dev_endpoint={dev_endpoint_name}'' w2)))"
  have nb: "notebook_name ?w1 = notebook_name w"
    by (simp add: io_defs)
  have t3: "trace ?w3 = trace w2 @
      [Log INFO ''Deleting public_keys={public_keys_to_delete} from dev_endpoint={dev_endpoint_name}'',
       UpdateDeletePublicKeys n ?keys]"
    by (simp add: io_defs split: option.splits)
  have "prefix (trace ?w3) (trace (snd (wait_dev_endpoint_ready n ?w3)))"
    by (rule wait_trace_grows)
  then have "prefix (trace ?w3) (trace (snd (delete_public_keys_if_has n w)))"
    using assms nb
    by (auto simp add: delete_public_keys_if_has_def delete_public_keys_def io_defs prefix_def
        split: option.splits prod.splits sum.splits)
  with t3 show ?thesis by simp
qed


definition shared_endpoint :: dev_endpoint where
  "shared_endpoint = idle_endpoint\<lparr>PublicKey := Some ''ssh-rsa CCCC admin'',
     PublicKeys := Some [''ssh-rsa AAAA nb'', ''ssh-rsa BBBB other'']\<rparr>"

definition shared_world :: world where
  "shared_world = fresh_world\<lparr>get_dev_endpoint_replies :=
     (\<lambda>n. if n = 0 then Inr shared_endpoint else Inr idle_endpoint)\<rparr>"

text \<open>
  C10. In \<open>delete_public_keys_if_has\<close> the value of the singular \<open>PublicKey\<close> field is
  always put on the deletion list, whatever it contains; an entry of the plural
  \<open>PublicKeys\<close> list (other than that value) is on the list exactly when it contains the
  notebook's name. When the endpoint was described, the ready-wait returned and the list
  is not empty, the list is what the \<open>DeletePublicKeys\<close> request carries.
\<close>

theorem delete_filters_only_plural_keys:
  "(PublicKey ep = Some k \<longrightarrow> k \<in> set (public_keys_to_delete nb ep)) \<and>
   (PublicKeys ep = Some ks \<longrightarrow> PublicKey ep \<noteq> Some k \<longrightarrow>
      (k \<in> set (public_keys_to_delete nb ep) \<longleftrightarrow> k \<in> set ks \<and> sublist nb k)) \<and>
   (get_dev_endpoint_replies w 0 = Inr ep \<longrightarrow>
    wait_dev_endpoint_ready n (snd (glue_get_dev_endpoint n w)) = (Inr (), w2) \<longrightarrow>
    public_keys_to_delete (notebook_name w) ep \<noteq> [] \<longrightarrow>
      prefix (trace w2 @
        [Log INFO ''Deleting public_keys={public_keys_to_delete} from dev_endpoint={dev_endpoint_name}'',
         UpdateDeletePublicKeys n (public_keys_to_delete (notebook_name w) ep)])
        (trace (snd (delete_public_keys_if_has n w))))"
proof (intro conjI impI)
  assume "PublicKey ep = Some k"
  then show "k \<in> set (public_keys_to_delete nb ep)"
    by (simp add: public_keys_to_delete_def)
next
  assume "PublicKeys ep = Some ks" and "PublicKey ep \<noteq> Some k"
  then show "k \<in> set (public_keys_to_delete nb ep) \<longleftrightarrow> k \<in> set ks \<and> sublist nb k"
    by (cases "PublicKey ep") (auto simp add: public_keys_to_delete_def)
next
  assume "get_dev_endpoint_replies w 0 = Inr ep"
    and "wait_dev_endpoint_ready n (snd (glue_get_dev_endpoint n w)) = (Inr (), w2)"
    and "public_keys_to_delete (notebook_name w) ep \<noteq> []"
  then show "prefix (trace w2 @
        [Log INFO ''Deleting public_keys={public_keys_to_delete} from dev_endpoint={dev_endpoint_name}'',
         UpdateDeletePublicKeys n (public_keys_to_delete (notebook_name w) ep)])
        (trace (snd (delete_public_keys_if_has n w)))"
    by (rule delete_public_keys_if_has_request)
qed

lemma shared_world_wait:
  "wait_dev_endpoint_ready ''epA'' (snd (glue_get_dev_endpoint ''epA'' shared_world)) =
     (Inr (), snd (wait_dev_endpoint_ready ''epA'' (snd (glue_get_dev_endpoint ''epA'' shared_world))))"
  by (simp add: prod_eq_iff shared_world_def fresh_world_def idle_endpoint_def
      wait_dev_endpoint_ready_def wait_loop.simps poll_dev_endpoint_def io_defs const_defs)

lemma shared_keys:
  "public_keys_to_delete ''nb'' shared_endpoint = [''ssh-rsa CCCC admin'', ''ssh-rsa AAAA nb'']"
  by (simp add: public_keys_to_delete_def shared_endpoint_def idle_endpoint_def sublist_code(3))

theorem delete_filters_only_plural_keys_witness:
  "\<not> sublist ''nb'' ''ssh-rsa CCCC admin'' \<and>
   ''ssh-rsa CCCC admin'' \<in> set (public_keys_to_delete ''nb'' shared_endpoint) \<and>
   ''ssh-rsa BBBB other'' \<notin> set (public_keys_to_delete ''nb'' shared_endpoint) \<and>
   UpdateDeletePublicKeys ''epA'' [''ssh-rsa CCCC admin'', ''ssh-rsa AAAA nb'']
     \<in> set (trace (snd (delete_public_keys_if_has ''epA'' shared_world)))"
proof -
  let ?w2 = "snd (wait_dev_endpoint_ready ''epA'' (snd (glue_get_dev_endpoint ''epA'' shared_world)))"
  have r: "get_dev_endpoint_replies shared_world 0 = Inr shared_endpoint"
    and nb: "notebook_name shared_world = ''nb''"
    by (simp_all add: shared_world_def fresh_world_def)
  have fields: "PublicKey shared_endpoint = Some ''ssh-rsa CCCC admin''"
    "PublicKeys shared_endpoint = Some [''ssh-rsa AAAA nb'', ''ssh-rsa BBBB other'']"
    by (simp_all add: shared_endpoint_def idle_endpoint_def)
  have no: "\<not> sublist ''nb'' ''ssh-rsa CCCC admin''" "\<not> sublist ''nb'' ''ssh-rsa BBBB other''"
    by (simp_all add: sublist_code(3))
  from delete_filters_only_plural_keys
    [of shared_endpoint "''ssh-rsa CCCC admin''" "''nb''" "[''ssh-rsa AAAA nb'', ''ssh-rsa BBBB other'']"
      shared_world "''epA''" ?w2]
  have a: "''ssh-rsa CCCC admin'' \<in> set (public_keys_to_delete ''nb'' shared_endpoint)"
    and p: "prefix (trace ?w2 @
        [Log INFO ''Deleting public_keys={public_keys_to_delete} from dev_endpoint={dev_endpoint_name}'',
         UpdateDeletePublicKeys ''epA'' [''ssh-rsa CCCC admin'', ''ssh-rsa AAAA nb'']])
        (trace (snd (delete_public_keys_if_has ''epA'' shared_world)))"
    using r nb fields shared_world_wait shared_keys by simp_all
  from delete_filters_only_plural_keys
    [of shared_endpoint "''ssh-rsa BBBB other''" "''nb''" "[''ssh-rsa AAAA nb'', ''ssh-rsa BBBB other'']"]
  have b: "''ssh-rsa BBBB other'' \<notin> set (public_keys_to_delete ''nb'' shared_endpoint)"
    using fields no by simp
  from p have "UpdateDeletePublicKeys ''epA'' [''ssh-rsa CCCC admin'', ''ssh-rsa AAAA nb'']
     \<in> set (trace (snd (delete_public_keys_if_has ''epA'' shared_world)))"
    by (auto simp add: prefix_def)
  with no a b show ?thesis by simp
qed

text \<open>A registered key left by an earlier key pair of the notebook \<open>nb\<close>.\<close>

definition stale_key_endpoint :: dev_endpoint where
  "stale_key_endpoint = idle_endpoint\<lparr>PublicKeys := Some [''ssh-rsa OLD nb'']\<rparr>"

definition rotated_world :: world where
  "rotated_world = fresh_world\<lparr>files :=
     [SSH_KEY_PUBLIC_PATH \<mapsto> ''ssh-rsa NEW nb'' @ [CHR 0x0A]]\<rparr>"

text \<open>
  C8, as the code has it. The two callers use different rules. A key is on the deletion
  list of \<open>delete_public_keys_if_has\<close> exactly when it is the value of the singular
  \<open>PublicKey\<close> field (whatever it contains) or an entry of \<open>PublicKeys\<close> that contains
  the notebook's name; with no singular \<open>PublicKey\<close> the list is the \<open>PublicKeys\<close>
  entries that contain the name. \<open>has_public_key\<close> does not look at the name: when the
  public key file can be read and is not empty, it answers whether the singular
  \<open>PublicKey\<close> or some entry of \<open>PublicKeys\<close> contains the text of that file.
\<close>

theorem key_ownership_rules:
  "(k \<in> set (public_keys_to_delete (notebook_name w) ep) \<longleftrightarrow>
      PublicKey ep = Some k \<or>
      (\<exists>ks. PublicKeys ep = Some ks \<and> k \<in> set ks \<and> sublist (notebook_name w) k)) \<and>
   (PublicKey ep = None \<longrightarrow> PublicKeys ep = Some ks \<longrightarrow>
      public_keys_to_delete (notebook_name w) ep =
        filter (\<lambda>public_key. sublist (notebook_name w) public_key) ks) \<and>
   (files w SSH_KEY_PUBLIC_PATH = Some current_public_key \<longrightarrow> current_public_key \<noteq> [] \<longrightarrow>
    \<not> io_faults w 0 \<longrightarrow>
      fst (has_public_key ep w) =
        Inr ((\<exists>k'. PublicKey ep = Some k' \<and> sublist current_public_key k') \<or>
             (\<exists>ks'. PublicKeys ep = Some ks' \<and>
                list_ex (\<lambda>public_key. sublist current_public_key public_key) ks')))"
proof (intro conjI impI)
  show "k \<in> set (public_keys_to_delete (notebook_name w) ep) \<longleftrightarrow>
      PublicKey ep = Some k \<or>
      (\<exists>ks. PublicKeys ep = Some ks \<and> k \<in> set ks \<and> sublist (notebook_name w) k)"
    by (cases "PublicKey ep"; cases "PublicKeys ep")
       (auto simp add: public_keys_to_delete_def)
next
  assume "PublicKey ep = None" and "PublicKeys ep = Some ks"
  then show "public_keys_to_delete (notebook_name w) ep =
        filter (\<lambda>public_key. sublist (notebook_name w) public_key) ks"
    by (simp add: public_keys_to_delete_def)
next
  assume "files w SSH_KEY_PUBLIC_PATH = Some current_public_key" and "current_public_key \<noteq> []"
    and "\<not> io_faults w 0"
  then show "fst (has_public_key ep w) =
        Inr ((\<exists>k'. PublicKey ep = Some k' \<and> sublist current_public_key k') \<or>
             (\<exists>ks'. PublicKeys ep = Some ks' \<and>
                list_ex (\<lambda>public_key. sublist current_public_key public_key) ks'))"
    by (cases "PublicKey ep"; cases "PublicKeys ep")
       (simp_all add: has_public_key_def get_public_key_def io_defs)
qed

text \<open>
  An endpoint whose singular \<open>PublicKey\<close> is also an entry of \<open>PublicKeys\<close> and does not
  contain the notebook's name.
\<close>

definition repeated_key_endpoint :: dev_endpoint where
  "repeated_key_endpoint = idle_endpoint\<lparr>PublicKey := Some ''ssh-rsa CCCC admin'',
     PublicKeys := Some [''ssh-rsa CCCC admin'', ''ssh-rsa OLD nb'']\<rparr>"

theorem key_ownership_rules_witness:
  "''ssh-rsa OLD nb'' \<in> set (public_keys_to_delete (notebook_name rotated_world) stale_key_endpoint) \<and>
   public_keys_to_delete (notebook_name rotated_world) stale_key_endpoint = [''ssh-rsa OLD nb''] \<and>
   fst (has_public_key stale_key_endpoint rotated_world) = Inr False \<and>
   \<not> sublist (notebook_name rotated_world) ''ssh-rsa CCCC admin'' \<and>
   ''ssh-rsa CCCC admin'' \<in> set (public_keys_to_delete (notebook_name rotated_world) repeated_key_endpoint)"
proof -
  have f: "files rotated_world SSH_KEY_PUBLIC_PATH = Some (''ssh-rsa NEW nb'' @ [CHR 0x0A])"
    "\<not> io_faults rotated_world 0" "notebook_name rotated_world = ''nb''"
    by (simp_all add: rotated_world_def fresh_world_def)
  have e: "PublicKeys stale_key_endpoint = Some [''ssh-rsa OLD nb'']"
    "PublicKey stale_key_endpoint = None"
    "PublicKey repeated_key_endpoint = Some ''ssh-rsa CCCC admin''"
    by (simp_all add: stale_key_endpoint_def repeated_key_endpoint_def idle_endpoint_def)
  have s: "sublist ''nb'' ''ssh-rsa OLD nb''" "\<not> sublist ''nb'' ''ssh-rsa CCCC admin''"
    "\<not> sublist (''ssh-rsa NEW nb'' @ [CHR 0x0A]) ''ssh-rsa OLD nb''"
    by (simp_all add: sublist_code(3))
  from key_ownership_rules [of "''ssh-rsa OLD nb''" rotated_world stale_key_endpoint
      "[''ssh-rsa OLD nb'']" "''ssh-rsa NEW nb'' @ [CHR 0x0A]"] f e s
  have a: "''ssh-rsa OLD nb'' \<in> set (public_keys_to_delete (notebook_name rotated_world) stale_key_endpoint)"
    "public_keys_to_delete (notebook_name rotated_world) stale_key_endpoint = [''ssh-rsa OLD nb'']"
    "fst (has_public_key stale_key_endpoint rotated_world) = Inr False"
    by simp_all
  from key_ownership_rules [of "''ssh-rsa CCCC admin''" rotated_world repeated_key_endpoint] e(3)
  have "''ssh-rsa CCCC admin'' \<in> set (public_keys_to_delete (notebook_name rotated_world) repeated_key_endpoint)"
    by simp
  with a f(3) s(2) show ?thesis by simp
qed

text \<open>
  C8, as the claim states it, fails: the registered key \<open>ssh-rsa OLD nb\<close> contains the
  notebook's name \<open>nb\<close> and the deletion filter selects it, but \<open>has_public_key\<close> does
  not take it for the notebook's key.
\<close>

theorem has_public_key_ignores_name_counterexample:
  "sublist (notebook_name rotated_world) ''ssh-rsa OLD nb'' \<and>
   public_keys_to_delete (notebook_name rotated_world) stale_key_endpoint = [''ssh-rsa OLD nb''] \<and>
   has_public_key stale_key_endpoint rotated_world = (Inr False, next_io_fault rotated_world)"
  by (simp add: rotated_world_def fresh_world_def stale_key_endpoint_def idle_endpoint_def
      public_keys_to_delete_def has_public_key_def get_public_key_def io_defs sublist_code(3))


subsection \<open>A live tunnel\<close>

definition bound_world :: world where
  "bound_world = fresh_world\<lparr>files := [CURRENT_DEV_ENDPOINT_PATH \<mapsto> ''epA'']\<rparr>"

text \<open>
  C7. When the liveness probe of a reconnect tick succeeds, \<open>reconnect_dev_endpoint\<close>
  returns normally having done two things only, the probe itself and one log line: no
  update of the endpoint, no tag write, no tunnel stop or start, and the files (the
  binding file among them) are as before. The same holds for the whole tick, which
  reads the binding file first.
\<close>

theorem live_probe_reconnect_is_noop:
  "(dev_endpoint_name \<noteq> [] \<longrightarrow> requests_get_replies w 0 = None \<longrightarrow>
      fst (reconnect_dev_endpoint (Some dev_endpoint_name) w) = Inr () \<and>
      trace (snd (reconnect_dev_endpoint (Some dev_endpoint_name) w)) =
        trace w @ [RequestsGet LIVY_SERVER_URL LIVY_PING_TIMEOUT_IN_SEC,
                   Log INFO ''dev_endpoint={dev_endpoint_name} is connected''] \<and>
      files (snd (reconnect_dev_endpoint (Some dev_endpoint_name) w)) = files w \<and>
      dirs (snd (reconnect_dev_endpoint (Some dev_endpoint_name) w)) = dirs w) \<and>
   (files w CURRENT_DEV_ENDPOINT_PATH = Some dev_endpoint_name \<longrightarrow> dev_endpoint_name \<noteq> [] \<longrightarrow>
    \<not> io_faults w 0 \<longrightarrow> requests_get_replies w 0 = None \<longrightarrow>
      fst (reconnect_tick w) = Inr () \<and>
      trace (snd (reconnect_tick w)) =
        trace w @ [RequestsGet LIVY_SERVER_URL LIVY_PING_TIMEOUT_IN_SEC,
                   Log INFO ''dev_endpoint={dev_endpoint_name} is connected''] \<and>
      files (snd (reconnect_tick w)) = files w \<and>
      dirs (snd (reconnect_tick w)) = dirs w)"
  by (simp add: reconnect_tick_def get_current_dev_endpoint_def reconnect_dev_endpoint_def
      is_dev_endpoint_connected_def io_defs)

theorem live_probe_reconnect_is_noop_witness:
  "fst (reconnect_tick bound_world) = Inr () \<and>
   trace (snd (reconnect_tick bound_world)) =
     [RequestsGet LIVY_SERVER_URL LIVY_PING_TIMEOUT_IN_SEC,
      Log INFO ''dev_endpoint={dev_endpoint_name} is connected''] \<and>
   files (snd (reconnect_tick bound_world)) CURRENT_DEV_ENDPOINT_PATH = Some ''epA'' \<and>
   fst (reconnect_dev_endpoint (Some ''epA'') bound_world) = Inr () \<and>
   trace (snd (reconnect_dev_endpoint (Some ''epA'') bound_world)) =
     [RequestsGet LIVY_SERVER_URL LIVY_PING_TIMEOUT_IN_SEC,
      Log INFO ''dev_endpoint={dev_endpoint_name} is connected'']"
  using live_probe_reconnect_is_noop [of "''epA''" bound_world]
  by (simp add: bound_world_def fresh_world_def)

subsection \<open>Local I/O errors\<close>

definition unreadable_binding_world :: world where
  "unreadable_binding_world = bound_world\<lparr>io_faults := (\<lambda>n. n = 0)\<rparr>"

definition keyed_world :: world where
  "keyed_world = fresh_world\<lparr>
     files := [SSH_KEY_PRIVATE_PATH \<mapsto> ''PRIVATE'',
               SSH_KEY_PUBLIC_PATH \<mapsto> ''ssh-rsa AAAA nb'' @ [CHR 0x0A],
               CURRENT_DEV_ENDPOINT_PATH \<mapsto> ''epA''],
     dirs := {SSH_KEY_DIR},
     io_faults := (\<lambda>n. n = 0),
     add_tags_replies := (\<lambda>n. Some (ClientError ''AccessDenied''))\<rparr>"

text \<open>
  C9, as the code has it. An I/O error while reading the public key file, while writing
  the binding file or while removing it is logged at error level and raised again to the
  caller, and a failed observability-tag write is logged and swallowed. An I/O error
  while reading the binding file is not raised: \<open>get_current_dev_endpoint\<close> logs a
  warning and returns \<open>None\<close>, the value it returns for an absent file. (Removing the old
  private key in \<open>generate_ssh_keypair\<close> raises its error with no log line of its own.)
\<close>

theorem local_io_errors:
  "(io_faults w 0 \<or> files w SSH_KEY_PUBLIC_PATH = None \<longrightarrow>
      fst (get_public_key w) = Inl IOError \<and>
      trace (snd (get_public_key w)) =
        trace w @ [Log ERROR ''Failed to read SSH public_key from {SSH_KEY_PUBLIC_PATH}'']) \<and>
   (io_faults w 0 \<longrightarrow>
      fst (save_current_dev_endpoint n w) = Inl IOError \<and>
      files (snd (save_current_dev_endpoint n w)) = files w \<and>
      trace (snd (save_current_dev_endpoint n w)) =
        trace w @ [Log INFO ''Saving current_dev_endpoint={dev_endpoint_name}'',
                   FileWrite CURRENT_DEV_ENDPOINT_PATH n,
                   Log ERROR ''Failed to save current_dev_endpoint={dev_endpoint_name}'']) \<and>
   (files w CURRENT_DEV_ENDPOINT_PATH \<noteq> None \<longrightarrow> io_faults w 0 \<longrightarrow>
      fst (remove_dev_endpoint n w) = Inl IOError \<and>
      files (snd (remove_dev_endpoint n w)) = files w \<and>
      trace (snd (remove_dev_endpoint n w)) =
        trace w @ [Log INFO ''Removing current_dev_endpoint={dev_endpoint_name}'',
                   FileRemove CURRENT_DEV_ENDPOINT_PATH,
                   Log ERROR ''Failed to remove current_dev_endpoint={dev_endpoint_name}'']) \<and>
   (add_tags_replies w 0 = Some e \<longrightarrow>
      fst (update_connection_tag v w) = Inr () \<and>
      trace (snd (update_connection_tag v w)) =
        trace w @ [AddTags (notebook_arn w) v,
                   Log ERROR ''Failed to update connection tag to {tag_value}'']) \<and>
   (files w CURRENT_DEV_ENDPOINT_PATH \<noteq> None \<longrightarrow> io_faults w 0 \<longrightarrow>
      fst (get_current_dev_endpoint w) = Inr None \<and>
      trace (snd (get_current_dev_endpoint w)) =
        trace w @ [Log WARNING ''Failed to load current_dev_endpoint'']) \<and>
   (SSH_KEY_DIR \<in> dirs w \<longrightarrow> files w SSH_KEY_PRIVATE_PATH \<noteq> None \<longrightarrow>
    files w SSH_KEY_PUBLIC_PATH = Some k \<longrightarrow> k \<noteq> [] \<longrightarrow> \<not> io_faults w 0 \<longrightarrow> io_faults w 1 \<longrightarrow>
      fst (generate_ssh_keypair w) = Inl IOError \<and>
      trace (snd (generate_ssh_keypair w)) =
        trace w @ [Log INFO ''Generating SSH keypair at {SSH_KEY_PRIVATE_PATH}'',
                   Log WARNING ''Removing current SSH keypair {public_key}'',
                   FileRemove SSH_KEY_PRIVATE_PATH])"
proof (intro conjI impI)
  assume "io_faults w 0 \<or> files w SSH_KEY_PUBLIC_PATH = None"
  then show "fst (get_public_key w) = Inl IOError"
    and "trace (snd (get_public_key w)) =
        trace w @ [Log ERROR ''Failed to read SSH public_key from {SSH_KEY_PUBLIC_PATH}'']"
    by (auto simp add: get_public_key_def io_defs)
next
  assume "io_faults w 0"
  then show "fst (save_current_dev_endpoint n w) = Inl IOError"
    and "files (snd (save_current_dev_endpoint n w)) = files w"
    and "trace (snd (save_current_dev_endpoint n w)) =
        trace w @ [Log INFO ''Saving current_dev_endpoint={dev_endpoint_name}'',
                   FileWrite CURRENT_DEV_ENDPOINT_PATH n,
                   Log ERROR ''Failed to save current_dev_endpoint={dev_endpoint_name}'']"
    by (simp_all add: save_current_dev_endpoint_def io_defs)
next
  assume "files w CURRENT_DEV_ENDPOINT_PATH \<noteq> None" and "io_faults w 0"
  then show "fst (remove_dev_endpoint n w) = Inl IOError"
    and "files (snd (remove_dev_endpoint n w)) = files w"
    and "trace (snd (remove_dev_endpoint n w)) =
        trace w @ [Log INFO ''Removing current_dev_endpoint={dev_endpoint_name}'',
                   FileRemove CURRENT_DEV_ENDPOINT_PATH,
                   Log ERROR ''Failed to remove current_dev_endpoint={dev_endpoint_name}'']"
    by (simp_all add: remove_dev_endpoint_def io_defs)
next
  assume "add_tags_replies w 0 = Some e"
  then show "fst (update_connection_tag v w) = Inr ()"
    and "trace (snd (update_connection_tag v w)) =
        trace w @ [AddTags (notebook_arn w) v,
                   Log ERROR ''Failed to update connection tag to {tag_value}'']"
    by (simp_all add: update_connection_tag_def io_defs)
next
  assume "files w CURRENT_DEV_ENDPOINT_PATH \<noteq> None" and "io_faults w 0"
  then show "fst (get_current_dev_endpoint w) = Inr None"
    and "trace (snd (get_current_dev_endpoint w)) =
        trace w @ [Log WARNING ''Failed to load current_dev_endpoint'']"
    by (simp_all add: get_current_dev_endpoint_def io_defs)
next
  assume "SSH_KEY_DIR \<in> dirs w" and "files w SSH_KEY_PRIVATE_PATH \<noteq> None"
    and "files w SSH_KEY_PUBLIC_PATH = Some k" and "k \<noteq> []"
    and "\<not> io_faults w 0" and "io_faults w 1"
  then show "fst (generate_ssh_keypair w) = Inl IOError"
    and "trace (snd (generate_ssh_keypair w)) =
        trace w @ [Log INFO ''Generating SSH keypair at {SSH_KEY_PRIVATE_PATH}'',
                   Log WARNING ''Removing current SSH keypair {public_key}'',
                   FileRemove SSH_KEY_PRIVATE_PATH]"
    by (simp_all add: generate_ssh_keypair_def get_public_key_def io_defs)
qed

theorem local_io_errors_witness:
  "fst (get_public_key keyed_world) = Inl IOError \<and>
   fst (save_current_dev_endpoint ''epB'' keyed_world) = Inl IOError \<and>
   fst (remove_dev_endpoint ''epA'' keyed_world) = Inl IOError \<and>
   fst (update_connection_tag ''ready'' keyed_world) = Inr () \<and>
   fst (get_current_dev_endpoint keyed_world) = Inr None \<and>
   fst (generate_ssh_keypair (keyed_world\<lparr>io_faults := (\<lambda>n. n = 1)\<rparr>)) = Inl IOError"
proof -
  have "io_faults keyed_world 0" "files keyed_world CURRENT_DEV_ENDPOINT_PATH \<noteq> None"
    "add_tags_replies keyed_world 0 = Some (ClientError ''AccessDenied'')"
    by (simp_all add: keyed_world_def fresh_world_def const_defs)
  with local_io_errors [of keyed_world _ "ClientError ''AccessDenied''"]
  have a: "fst (get_public_key keyed_world) = Inl IOError"
    "fst (save_current_dev_endpoint ''epB'' keyed_world) = Inl IOError"
    "fst (remove_dev_endpoint ''epA'' keyed_world) = Inl IOError"
    "fst (update_connection_tag ''ready'' keyed_world) = Inr ()"
    "fst (get_current_dev_endpoint keyed_world) = Inr None"
    by simp_all
  let ?w = "keyed_world\<lparr>io_faults := (\<lambda>n. n = 1)\<rparr>"
  have "SSH_KEY_DIR \<in> dirs ?w" "files ?w SSH_KEY_PRIVATE_PATH \<noteq> None"
    "files ?w SSH_KEY_PUBLIC_PATH = Some (''ssh-rsa AAAA nb'' @ [CHR 0x0A])"
    "\<not> io_faults ?w 0" "io_faults ?w 1"
    by (simp_all add: keyed_world_def fresh_world_def const_defs)
  with local_io_errors [of ?w "''epA''" _ _ "''ssh-rsa AAAA nb'' @ [CHR 0x0A]"]
  have "fst (generate_ssh_keypair ?w) = Inl IOError"
    by simp
  with a show ?thesis by simp
qed

text \<open>
  C9, as the claim states it, fails: the binding file holds \<open>epA\<close> and reading it
  raises \<open>IOError\<close>, yet \<open>get_current_dev_endpoint\<close> returns \<open>None\<close> and the reconnect
  tick completes without an error.
\<close>

theorem binding_read_error_counterexample:
  "files unreadable_binding_world CURRENT_DEV_ENDPOINT_PATH = Some ''epA'' \<and>
   io_faults unreadable_binding_world 0 \<and>
   fst (get_current_dev_endpoint unreadable_binding_world) = Inr None \<and>
   fst (reconnect_tick unreadable_binding_world) = Inr ()"
  by (simp add: unreadable_binding_world_def bound_world_def fresh_world_def reconnect_tick_def
      get_current_dev_endpoint_def reconnect_dev_endpoint_def io_defs)

subsection \<open>The tick boundary\<close>

lemma reconnect_daemon_iteration_eq:
  "reconnect_daemon_iteration failed_count w =
     (case reconnect_tick (snd (logger INFO ''reconnect_daemon checking'' w)) of
        (Inl e, w') \<Rightarrow>
          (Inr (failed_count + 1),
           snd (time_sleep RECONNECT_INTERVAL_IN_SEC
             (snd (logger ERROR ''reconnect_daemon failed_count={failed_count}'' w'))))
      | (Inr u, w') \<Rightarrow> (Inr 0, snd (time_sleep RECONNECT_INTERVAL_IN_SEC w')))"
  by (simp add: reconnect_daemon_iteration_def return_io_def bind_io_def seq_io_def
      try_except_def logger_def time_sleep_def split: prod.splits sum.splits)

lemma switch_daemon_iteration_eq:
  "switch_daemon_iteration failed_count w =
     (case switch_tick (snd (logger INFO ''switch_daemon checking'' w)) of
        (Inl e, w') \<Rightarrow>
          (Inr (failed_count + 1),
           snd (time_sleep SWITCH_INTERVAL_IN_SEC
             (snd (logger ERROR ''switch_daemon failed_count={failed_count}'' w'))))
      | (Inr u, w') \<Rightarrow> (Inr 0, snd (time_sleep SWITCH_INTERVAL_IN_SEC w')))"
  by (simp add: switch_daemon_iteration_def return_io_def bind_io_def seq_io_def
      try_except_def logger_def time_sleep_def split: prod.splits sum.splits)

text \<open>
  C6. One pass through the loop body of either daemon never raises. Its value, the new
  \<open>failed_count\<close>, is the old one plus one when the tick raised (whatever the exception)
  and 0 when the tick returned; a tick that raised leaves an error line in the log. While
  the counter is below the threshold the loop goes on with that value.
\<close>

theorem tick_boundary_counts_failures:
  "fst (reconnect_daemon_iteration failed_count w) =
     Inr (case fst (reconnect_tick (snd (logger INFO ''reconnect_daemon checking'' w))) of
            Inl e \<Rightarrow> failed_count + 1 | Inr u \<Rightarrow> 0) \<and>
   trace (snd (reconnect_daemon_iteration failed_count w)) =
     trace (snd (reconnect_tick (snd (logger INFO ''reconnect_daemon checking'' w)))) @
     (case fst (reconnect_tick (snd (logger INFO ''reconnect_daemon checking'' w))) of
        Inl e \<Rightarrow> [Log ERROR ''reconnect_daemon failed_count={failed_count}'',
                  Sleep RECONNECT_INTERVAL_IN_SEC]
      | Inr u \<Rightarrow> [Sleep RECONNECT_INTERVAL_IN_SEC]) \<and>
   reconnect_daemon_loop failed_count w =
     (if of_nat failed_count < RECONNECT_MAX_FAIL_COUNT then
        reconnect_daemon_loop
          (case fst (reconnect_tick (snd (logger INFO ''reconnect_daemon checking'' w))) of
             Inl e \<Rightarrow> failed_count + 1 | Inr u \<Rightarrow> 0)
          (snd (reconnect_daemon_iteration failed_count w))
      else Some (Inr failed_count, w)) \<and>
   fst (switch_daemon_iteration failed_count w) =
     Inr (case fst (switch_tick (snd (logger INFO ''switch_daemon checking'' w))) of
            Inl e \<Rightarrow> failed_count + 1 | Inr u \<Rightarrow> 0) \<and>
   trace (snd (switch_daemon_iteration failed_count w)) =
     trace (snd (switch_tick (snd (logger INFO ''switch_daemon checking'' w)))) @
     (case fst (switch_tick (snd (logger INFO ''switch_daemon checking'' w))) of
        Inl e \<Rightarrow> [Log ERROR ''switch_daemon failed_count={failed_count}'',
                  Sleep SWITCH_INTERVAL_IN_SEC]
      | Inr u \<Rightarrow> [Sleep SWITCH_INTERVAL_IN_SEC]) \<and>
   switch_daemon_loop failed_count w =
     (if of_nat failed_count < SWITCH_MAX_FAIL_COUNT then
        switch_daemon_loop
          (case fst (switch_tick (snd (logger INFO ''switch_daemon checking'' w))) of
             Inl e \<Rightarrow> failed_count + 1 | Inr u \<Rightarrow> 0)
          (snd (switch_daemon_iteration failed_count w))
      else Some (Inr failed_count, w))"
proof (intro conjI)
  show "fst (reconnect_daemon_iteration failed_count w) =
     Inr (case fst (reconnect_tick (snd (logger INFO ''reconnect_daemon checking'' w))) of
            Inl e \<Rightarrow> failed_count + 1 | Inr u \<Rightarrow> 0)"
    by (simp add: reconnect_daemon_iteration_eq split: prod.splits sum.splits)
  show "trace (snd (reconnect_daemon_iteration failed_count w)) =
     trace (snd (reconnect_tick (snd (logger INFO ''reconnect_daemon checking'' w)))) @
     (case fst (reconnect_tick (snd (logger INFO ''reconnect_daemon checking'' w))) of
        Inl e \<Rightarrow> [Log ERROR ''reconnect_daemon failed_count={failed_count}'',
                  Sleep RECONNECT_INTERVAL_IN_SEC]
      | Inr u \<Rightarrow> [Sleep RECONNECT_INTERVAL_IN_SEC])"
    by (simp add: reconnect_daemon_iteration_eq logger_def time_sleep_def emit_def
        split: prod.splits sum.splits)
  show "reconnect_daemon_loop failed_count w =
     (if of_nat failed_count < RECONNECT_MAX_FAIL_COUNT then
        reconnect_daemon_loop
          (case fst (reconnect_tick (snd (logger INFO ''reconnect_daemon checking'' w))) of
             Inl e \<Rightarrow> failed_count + 1 | Inr u \<Rightarrow> 0)
          (snd (reconnect_daemon_iteration failed_count w))
      else Some (Inr failed_count, w))"
    by (subst reconnect_daemon_loop.simps)
       (simp add: reconnect_daemon_iteration_eq split: prod.splits sum.splits)
  show "fst (switch_daemon_iteration failed_count w) =
     Inr (case fst (switch_tick (snd (logger INFO ''switch_daemon checking'' w))) of
            Inl e \<Rightarrow> failed_count + 1 | Inr u \<Rightarrow> 0)"
    by (simp add: switch_daemon_iteration_eq split: prod.splits sum.splits)
  show "trace (snd (switch_daemon_iteration failed_count w)) =
     trace (snd (switch_tick (snd (logger INFO ''switch_daemon checking'' w)))) @
     (case fst (switch_tick (snd (logger INFO ''switch_daemon checking'' w))) of
        Inl e \<Rightarrow> [Log ERROR ''switch_daemon failed_count={failed_count}'',
                  Sleep SWITCH_INTERVAL_IN_SEC]
      | Inr u \<Rightarrow> [Sleep SWITCH_INTERVAL_IN_SEC])"
    by (simp add: switch_daemon_iteration_eq logger_def time_sleep_def emit_def
        split: prod.splits sum.splits)
  show "switch_daemon_loop failed_count w =
     (if of_nat failed_count < SWITCH_MAX_FAIL_COUNT then
        switch_daemon_loop
          (case fst (switch_tick (snd (logger INFO ''switch_daemon checking'' w))) of
             Inl e \<Rightarrow> failed_count + 1 | Inr u \<Rightarrow> 0)
          (snd (switch_daemon_iteration failed_count w))
      else Some (Inr failed_count, w))"
    by (subst switch_daemon_loop.simps)
       (simp add: switch_daemon_iteration_eq split: prod.splits sum.splits)
qed


subsection \<open>The ready-wait\<close>

text \<open>The world after \<open>k\<close> polls of the ready-wait loop.\<close>

primrec polled :: "string \<Rightarrow> nat \<Rightarrow> world \<Rightarrow> world" where
  "polled n 0 w = w"
| "polled n (Suc k) w = polled n k (snd (poll_dev_endpoint n w))"

definition poll_events :: "string \<Rightarrow> event list" where
  "poll_events n = [Log INFO ''Waiting dev_endpoint={dev_endpoint_name} ready'',
     Sleep WAIT_DEV_ENDPOINT_READY_INTERVAL_IN_SEC, GetDevEndpoint n]"

text \<open>A reply that keeps the loop polling: an endpoint whose update is under way.\<close>

definition still_updating :: "error + dev_endpoint \<Rightarrow> bool" where
  "still_updating r = (case r of Inl e \<Rightarrow> False | Inr ep \<Rightarrow> is_dev_endpoint_updating ep)"

definition pending_endpoint :: dev_endpoint where
  "pending_endpoint = idle_endpoint\<lparr>LastUpdateStatus := Some ''PENDING''\<rparr>"

definition failing_world :: world where
  "failing_world = fresh_world\<lparr>get_dev_endpoint_replies :=
     (\<lambda>j. if j < 2 then Inr pending_endpoint
          else Inr (idle_endpoint\<lparr>LastUpdateStatus := Some FAILED\<rparr>))\<rparr>"

definition completing_world :: world where
  "completing_world = fresh_world\<lparr>get_dev_endpoint_replies :=
     (\<lambda>j. if j < 2 then Inr pending_endpoint
          else Inr (idle_endpoint\<lparr>LastUpdateStatus := Some COMPLETED\<rparr>))\<rparr>"

text \<open>The update is under way for 119 polls and is found \<open>FAILED\<close> by the 120th.\<close>

definition late_failing_world :: world where
  "late_failing_world = fresh_world\<lparr>get_dev_endpoint_replies :=
     (\<lambda>j. if j < 119 then Inr pending_endpoint
          else Inr (idle_endpoint\<lparr>LastUpdateStatus := Some FAILED\<rparr>))\<rparr>"

definition stuck_world :: world where
  "stuck_world = fresh_world\<lparr>get_dev_endpoint_replies := (\<lambda>j. Inr pending_endpoint)\<rparr>"

lemma poll_dev_endpoint_eq:
  "poll_dev_endpoint n w =
     (get_dev_endpoint_replies w 0,
      w\<lparr>clock := clock w + WAIT_DEV_ENDPOINT_READY_INTERVAL_IN_SEC,
        get_dev_endpoint_replies := (\<lambda>j. get_dev_endpoint_replies w (Suc j)),
        trace := trace w @ poll_events n\<rparr>)"
  by (simp add: poll_dev_endpoint_def poll_events_def io_defs)

lemma clock_polled:
  "clock (polled n k w) = clock w + WAIT_DEV_ENDPOINT_READY_INTERVAL_IN_SEC * k"
  by (induction k arbitrary: w) (simp_all add: poll_dev_endpoint_eq)

lemma replies_polled:
  "get_dev_endpoint_replies (polled n k w) j = get_dev_endpoint_replies w (k + j)"
  by (induction k arbitrary: w) (simp_all add: poll_dev_endpoint_eq)

lemma concat_replicate_snoc: "concat (replicate k xs) @ xs = xs @ concat (replicate k xs)"
  by (induction k) simp_all

lemma trace_polled: "trace (polled n k w) = trace w @ concat (replicate k (poll_events n))"
  by (induction k arbitrary: w) (simp_all add: poll_dev_endpoint_eq)

lemma files_polled: "files (polled n k w) = files w"
  by (induction k arbitrary: w) (simp_all add: poll_dev_endpoint_eq)

lemma wait_loop_still_updating:
  assumes "still_updating (get_dev_endpoint_replies w 0)"
    and "clock w - start < UPDATE_DEV_ENDPOINT_TIMEOUT_IN_SEC"
  shows "wait_loop n start w = wait_loop n start (snd (poll_dev_endpoint n w))"
  using assms
  by (subst wait_loop.simps)
     (auto simp add: poll_dev_endpoint_eq still_updating_def is_dev_endpoint_updating_def
       split: sum.splits option.splits)

lemma wait_loop_skip:
  assumes "\<forall>j<k. still_updating (get_dev_endpoint_replies w j)"
    and "clock w + WAIT_DEV_ENDPOINT_READY_INTERVAL_IN_SEC * k
           \<le> start + UPDATE_DEV_ENDPOINT_TIMEOUT_IN_SEC"
  shows "wait_loop n start w = wait_loop n start (polled n k w)"
  using assms
proof (induction k arbitrary: w)
  case 0
  then show ?case by simp
next
  case (Suc k)
  let ?w1 = "snd (poll_dev_endpoint n w)"
  from Suc.prems(1) have first: "still_updating (get_dev_endpoint_replies w 0)"
    by simp
  from Suc.prems(2) have guard: "clock w - start < UPDATE_DEV_ENDPOINT_TIMEOUT_IN_SEC"
    by (simp add: WAIT_DEV_ENDPOINT_READY_INTERVAL_IN_SEC_def UPDATE_DEV_ENDPOINT_TIMEOUT_IN_SEC_def)
  have rest: "\<forall>j<k. still_updating (get_dev_endpoint_replies ?w1 j)"
    using Suc.prems(1) by (simp add: poll_dev_endpoint_eq)
  have time: "clock ?w1 + WAIT_DEV_ENDPOINT_READY_INTERVAL_IN_SEC * k
           \<le> start + UPDATE_DEV_ENDPOINT_TIMEOUT_IN_SEC"
    using Suc.prems(2) by (simp add: poll_dev_endpoint_eq)
  have "wait_loop n start w = wait_loop n start ?w1"
    using first guard by (rule wait_loop_still_updating)
  also have "\<dots> = wait_loop n start (polled n k ?w1)"
    using rest time by (rule Suc.IH)
  finally show ?case by simp
qed

text \<open>
  What the ready-wait does when the first \<open>k\<close> polls see an update under way:
  the next poll decides, unless the time is up.
\<close>

lemma wait_after_polls:
  assumes "\<forall>j<k. still_updating (get_dev_endpoint_replies w j)"
    and "k \<le> UPDATE_DEV_ENDPOINT_TIMEOUT_IN_SEC div WAIT_DEV_ENDPOINT_READY_INTERVAL_IN_SEC"
  shows "wait_dev_endpoint_ready n w = wait_loop n (clock w) (polled n k w)"
  unfolding wait_dev_endpoint_ready_def
  using assms
  by (intro wait_loop_skip)
     (simp_all add: WAIT_DEV_ENDPOINT_READY_INTERVAL_IN_SEC_def UPDATE_DEV_ENDPOINT_TIMEOUT_IN_SEC_def)

lemma wait_raises_on_failed:
  assumes "\<forall>j<k. still_updating (get_dev_endpoint_replies w j)"
    and "k < UPDATE_DEV_ENDPOINT_TIMEOUT_IN_SEC div WAIT_DEV_ENDPOINT_READY_INTERVAL_IN_SEC"
    and "get_dev_endpoint_replies w k = Inr ep"
    and "LastUpdateStatus ep = Some FAILED"
  shows "wait_dev_endpoint_ready n w =
     (Inl (ValueError (''LastUpdateStatus is FAILED, dev_endpoint='' @ n)),
      snd (poll_dev_endpoint n (polled n k w)))"
proof -
  let ?wk = "polled n k w"
  from assms(1,2) have w: "wait_dev_endpoint_ready n w = wait_loop n (clock w) ?wk"
    by (intro wait_after_polls) simp_all
  from assms(2) have guard: "clock ?wk - clock w < UPDATE_DEV_ENDPOINT_TIMEOUT_IN_SEC"
    by (simp add: clock_polled WAIT_DEV_ENDPOINT_READY_INTERVAL_IN_SEC_def
        UPDATE_DEV_ENDPOINT_TIMEOUT_IN_SEC_def)
  from assms(3) have reply: "get_dev_endpoint_replies ?wk 0 = Inr ep"
    by (simp add: replies_polled)
  from guard reply assms(4) have "wait_loop n (clock w) ?wk =
      (Inl (ValueError (''LastUpdateStatus is FAILED, dev_endpoint='' @ n)),
       snd (poll_dev_endpoint n ?wk))"
    by (subst wait_loop.simps) (simp add: poll_dev_endpoint_eq COMPLETED_def FAILED_def)
  with w show ?thesis by simp
qed

text \<open>
  C4, as the code has it. Let the first \<open>k\<close> polls see an update under way. If poll
  \<open>k + 1\<close> is one of the 120 that start before 600 seconds are over and finds the status
  absent or \<open>COMPLETED\<close>, the wait returns normally right after that poll; if it finds
  \<open>FAILED\<close>, the wait raises \<open>ValueError\<close> right after that poll, \<open>5 * (k + 1)\<close> seconds
  after the start on a clock that only \<open>time.sleep\<close> advances: at most 600 seconds, and
  exactly 600 for the last poll, so not always before the timeout has elapsed. If all 120
  polls see an update under way, the wait logs an error and returns normally.
\<close>

theorem ready_wait_outcomes:
  "(\<forall>j<k. still_updating (get_dev_endpoint_replies w j)) \<longrightarrow>
     (k < UPDATE_DEV_ENDPOINT_TIMEOUT_IN_SEC div WAIT_DEV_ENDPOINT_READY_INTERVAL_IN_SEC \<longrightarrow>
      get_dev_endpoint_replies w k = Inr ep \<longrightarrow>
        (LastUpdateStatus ep = None \<longrightarrow>
           fst (wait_dev_endpoint_ready n w) = Inr () \<and>
           clock (snd (wait_dev_endpoint_ready n w)) =
             clock w + WAIT_DEV_ENDPOINT_READY_INTERVAL_IN_SEC * (k + 1) \<and>
           trace (snd (wait_dev_endpoint_ready n w)) =
             trace w @ concat (replicate (k + 1) (poll_events n))) \<and>
        (LastUpdateStatus ep = Some COMPLETED \<longrightarrow>
           fst (wait_dev_endpoint_ready n w) = Inr () \<and>
           clock (snd (wait_dev_endpoint_ready n w)) =
             clock w + WAIT_DEV_ENDPOINT_READY_INTERVAL_IN_SEC * (k + 1) \<and>
           trace (snd (wait_dev_endpoint_ready n w)) =
             trace w @ concat (replicate (k + 1) (poll_events n)) @
             [Log INFO ''dev_endpoint={dev_endpoint_name} ready'']) \<and>
        (LastUpdateStatus ep = Some FAILED \<longrightarrow>
           fst (wait_dev_endpoint_ready n w) =
             Inl (ValueError (''LastUpdateStatus is FAILED, dev_endpoint='' @ n)) \<and>
           clock (snd (wait_dev_endpoint_ready n w)) =
             clock w + WAIT_DEV_ENDPOINT_READY_INTERVAL_IN_SEC * (k + 1) \<and>
           clock (snd (wait_dev_endpoint_ready n w)) \<le> clock w + UPDATE_DEV_ENDPOINT_TIMEOUT_IN_SEC)) \<and>
     (k = UPDATE_DEV_ENDPOINT_TIMEOUT_IN_SEC div WAIT_DEV_ENDPOINT_READY_INTERVAL_IN_SEC \<longrightarrow>
        fst (wait_dev_endpoint_ready n w) = Inr () \<and>
        clock (snd (wait_dev_endpoint_ready n w)) = clock w + UPDATE_DEV_ENDPOINT_TIMEOUT_IN_SEC \<and>
        trace (snd (wait_dev_endpoint_ready n w)) =
          trace w @ concat (replicate k (poll_events n)) @
          [Log ERROR ''Wait dev_endpoint={dev_endpoint_name} ready timeout''])"
proof (intro impI conjI)
  assume upd: "\<forall>j<k. still_updating (get_dev_endpoint_replies w j)"
  let ?wk = "polled n k w"
  {
    assume k: "k < UPDATE_DEV_ENDPOINT_TIMEOUT_IN_SEC div WAIT_DEV_ENDPOINT_READY_INTERVAL_IN_SEC"
      and ep: "get_dev_endpoint_replies w k = Inr ep"
    from upd k have w: "wait_dev_endpoint_ready n w = wait_loop n (clock w) ?wk"
      by (intro wait_after_polls) simp_all
    from k have guard: "clock ?wk - clock w < UPDATE_DEV_ENDPOINT_TIMEOUT_IN_SEC"
      by (simp add: clock_polled WAIT_DEV_ENDPOINT_READY_INTERVAL_IN_SEC_def
          UPDATE_DEV_ENDPOINT_TIMEOUT_IN_SEC_def)
    from ep have reply: "get_dev_endpoint_replies ?wk 0 = Inr ep"
      by (simp add: replies_polled)
    {
      assume "LastUpdateStatus ep = None"
      with guard reply have "wait_loop n (clock w) ?wk = (Inr (), snd (poll_dev_endpoint n ?wk))"
        by (subst wait_loop.simps) (simp add: poll_dev_endpoint_eq)
      with w show "fst (wait_dev_endpoint_ready n w) = Inr ()"
        and "clock (snd (wait_dev_endpoint_ready n w)) =
             clock w + WAIT_DEV_ENDPOINT_READY_INTERVAL_IN_SEC * (k + 1)"
        and "trace (snd (wait_dev_endpoint_ready n w)) =
             trace w @ concat (replicate (k + 1) (poll_events n))"
        by (simp_all add: poll_dev_endpoint_eq clock_polled trace_polled concat_replicate_snoc)
    }
    {
      assume "LastUpdateStatus ep = Some COMPLETED"
      with guard reply have "wait_loop n (clock w) ?wk =
          logger INFO ''dev_endpoint={dev_endpoint_name} ready'' (snd (poll_dev_endpoint n ?wk))"
        by (subst wait_loop.simps) (simp add: poll_dev_endpoint_eq)
      with w show "fst (wait_dev_endpoint_ready n w) = Inr ()"
        and "clock (snd (wait_dev_endpoint_ready n w)) =
             clock w + WAIT_DEV_ENDPOINT_READY_INTERVAL_IN_SEC * (k + 1)"
        and "trace (snd (wait_dev_endpoint_ready n w)) =
             trace w @ concat (replicate (k + 1) (poll_events n)) @
             [Log INFO ''dev_endpoint={dev_endpoint_name} ready'']"
        by (simp_all add: poll_dev_endpoint_eq clock_polled trace_polled concat_replicate_snoc
            logger_def emit_def)
    }
    {
      assume "LastUpdateStatus ep = Some FAILED"
      with guard reply have "wait_loop n (clock w) ?wk =
          (Inl (ValueError (''LastUpdateStatus is FAILED, dev_endpoint='' @ n)),
           snd (poll_dev_endpoint n ?wk))"
        by (subst wait_loop.simps) (simp add: poll_dev_endpoint_eq COMPLETED_def FAILED_def)
      with w show "fst (wait_dev_endpoint_ready n w) =
             Inl (ValueError (''LastUpdateStatus is FAILED, dev_endpoint='' @ n))"
        and c: "clock (snd (wait_dev_endpoint_ready n w)) =
             clock w + WAIT_DEV_ENDPOINT_READY_INTERVAL_IN_SEC * (k + 1)"
        by (simp_all add: poll_dev_endpoint_eq clock_polled)
      from c k show "clock (snd (wait_dev_endpoint_ready n w))
          \<le> clock w + UPDATE_DEV_ENDPOINT_TIMEOUT_IN_SEC"
        by (simp add: WAIT_DEV_ENDPOINT_READY_INTERVAL_IN_SEC_def
            UPDATE_DEV_ENDPOINT_TIMEOUT_IN_SEC_def)
    }
  }
  {
    assume k: "k = UPDATE_DEV_ENDPOINT_TIMEOUT_IN_SEC div WAIT_DEV_ENDPOINT_READY_INTERVAL_IN_SEC"
    from upd k have w: "wait_dev_endpoint_ready n w = wait_loop n (clock w) ?wk"
      by (intro wait_after_polls) simp_all
    from k have "\<not> clock ?wk - clock w < UPDATE_DEV_ENDPOINT_TIMEOUT_IN_SEC"
      by (simp add: clock_polled WAIT_DEV_ENDPOINT_READY_INTERVAL_IN_SEC_def
          UPDATE_DEV_ENDPOINT_TIMEOUT_IN_SEC_def)
    then have "wait_loop n (clock w) ?wk =
        logger ERROR ''Wait dev_endpoint={dev_endpoint_name} ready timeout'' ?wk"
      by (subst wait_loop.simps) simp
    with w k show "fst (wait_dev_endpoint_ready n w) = Inr ()"
      and "clock (snd (wait_dev_endpoint_ready n w)) = clock w + UPDATE_DEV_ENDPOINT_TIMEOUT_IN_SEC"
      and "trace (snd (wait_dev_endpoint_ready n w)) =
          trace w @ concat (replicate k (poll_events n)) @
          [Log ERROR ''Wait dev_endpoint={dev_endpoint_name} ready timeout'']"
      by (simp_all add: clock_polled trace_polled logger_def emit_def
          WAIT_DEV_ENDPOINT_READY_INTERVAL_IN_SEC_def UPDATE_DEV_ENDPOINT_TIMEOUT_IN_SEC_def)
  }
qed


lemma pending_endpoint_updating: "still_updating (Inr pending_endpoint)"
  by (simp add: still_updating_def is_dev_endpoint_updating_def pending_endpoint_def
      idle_endpoint_def COMPLETED_def FAILED_def)

theorem ready_wait_outcomes_witness:
  "fst (wait_dev_endpoint_ready ''epA'' fresh_world) = Inr () \<and>
   clock (snd (wait_dev_endpoint_ready ''epA'' fresh_world)) = 5 \<and>
   fst (wait_dev_endpoint_ready ''epA'' completing_world) = Inr () \<and>
   clock (snd (wait_dev_endpoint_ready ''epA'' completing_world)) = 15 \<and>
   fst (wait_dev_endpoint_ready ''epA'' failing_world) =
     Inl (ValueError ''LastUpdateStatus is FAILED, dev_endpoint=epA'') \<and>
   clock (snd (wait_dev_endpoint_ready ''epA'' failing_world)) = 15 \<and>
   fst (wait_dev_endpoint_ready ''epA'' stuck_world) = Inr () \<and>
   clock (snd (wait_dev_endpoint_ready ''epA'' stuck_world)) = 600 \<and>
   last (trace (snd (wait_dev_endpoint_ready ''epA'' stuck_world))) =
     Log ERROR ''Wait dev_endpoint={dev_endpoint_name} ready timeout''"
proof -
  have idle: "fst (wait_dev_endpoint_ready ''epA'' fresh_world) = Inr ()"
    "clock (snd (wait_dev_endpoint_ready ''epA'' fresh_world)) = 5"
    using ready_wait_outcomes [of 0 fresh_world idle_endpoint "''epA''"]
    by (simp_all add: fresh_world_def idle_endpoint_def
        WAIT_DEV_ENDPOINT_READY_INTERVAL_IN_SEC_def UPDATE_DEV_ENDPOINT_TIMEOUT_IN_SEC_def)
  have two: "\<forall>j<2. still_updating (get_dev_endpoint_replies completing_world j)"
    "\<forall>j<2. still_updating (get_dev_endpoint_replies failing_world j)"
    by (simp_all add: completing_world_def failing_world_def pending_endpoint_updating)
  have completing: "fst (wait_dev_endpoint_ready ''epA'' completing_world) = Inr ()"
    "clock (snd (wait_dev_endpoint_ready ''epA'' completing_world)) = 15"
    using ready_wait_outcomes [of 2 completing_world
        "idle_endpoint\<lparr>LastUpdateStatus := Some COMPLETED\<rparr>" "''epA''"] two(1)
    by (simp_all add: completing_world_def fresh_world_def
        WAIT_DEV_ENDPOINT_READY_INTERVAL_IN_SEC_def UPDATE_DEV_ENDPOINT_TIMEOUT_IN_SEC_def)
  have failing: "fst (wait_dev_endpoint_ready ''epA'' failing_world) =
       Inl (ValueError ''LastUpdateStatus is FAILED, dev_endpoint=epA'')"
    "clock (snd (wait_dev_endpoint_ready ''epA'' failing_world)) = 15"
    using ready_wait_outcomes [of 2 failing_world
        "idle_endpoint\<lparr>LastUpdateStatus := Some FAILED\<rparr>" "''epA''"] two(2)
    by (simp_all add: failing_world_def fresh_world_def
        WAIT_DEV_ENDPOINT_READY_INTERVAL_IN_SEC_def UPDATE_DEV_ENDPOINT_TIMEOUT_IN_SEC_def)
  have "\<forall>j<120. still_updating (get_dev_endpoint_replies stuck_world j)"
    by (simp add: stuck_world_def pending_endpoint_updating)
  then have stuck: "fst (wait_dev_endpoint_ready ''epA'' stuck_world) = Inr ()"
    "clock (snd (wait_dev_endpoint_ready ''epA'' stuck_world)) = 600"
    "last (trace (snd (wait_dev_endpoint_ready ''epA'' stuck_world))) =
       Log ERROR ''Wait dev_endpoint={dev_endpoint_name} ready timeout''"
    using ready_wait_outcomes [of 120 stuck_world _ "''epA''"]
    by (simp_all add: stuck_world_def fresh_world_def
        WAIT_DEV_ENDPOINT_READY_INTERVAL_IN_SEC_def UPDATE_DEV_ENDPOINT_TIMEOUT_IN_SEC_def)
  from idle completing failing stuck show ?thesis by simp
qed


text \<open>
  C4, as the claim states it, fails: when the 120th poll is the first to find \<open>FAILED\<close>,
  the wait raises once the whole 600 seconds have gone by, not before.
\<close>

theorem failed_on_last_poll_counterexample:
  "fst (wait_dev_endpoint_ready ''epA'' late_failing_world) =
     Inl (ValueError ''LastUpdateStatus is FAILED, dev_endpoint=epA'') \<and>
   clock (snd (wait_dev_endpoint_ready ''epA'' late_failing_world)) - clock late_failing_world =
     UPDATE_DEV_ENDPOINT_TIMEOUT_IN_SEC"
proof -
  have "\<forall>j<119. still_updating (get_dev_endpoint_replies late_failing_world j)"
    by (simp add: late_failing_world_def pending_endpoint_updating)
  moreover have "119 < UPDATE_DEV_ENDPOINT_TIMEOUT_IN_SEC div WAIT_DEV_ENDPOINT_READY_INTERVAL_IN_SEC"
    by (simp add: WAIT_DEV_ENDPOINT_READY_INTERVAL_IN_SEC_def UPDATE_DEV_ENDPOINT_TIMEOUT_IN_SEC_def)
  moreover have "get_dev_endpoint_replies late_failing_world 119 =
      Inr (idle_endpoint\<lparr>LastUpdateStatus := Some FAILED\<rparr>)"
    by (simp add: late_failing_world_def)
  moreover have "LastUpdateStatus (idle_endpoint\<lparr>LastUpdateStatus := Some FAILED\<rparr>) = Some FAILED"
    by simp
  ultimately have "wait_dev_endpoint_ready ''epA'' late_failing_world =
     (Inl (ValueError (''LastUpdateStatus is FAILED, dev_endpoint='' @ ''epA'')),
      snd (poll_dev_endpoint ''epA'' (polled ''epA'' 119 late_failing_world)))"
    by (rule wait_raises_on_failed)
  then show ?thesis
    by (simp add: poll_dev_endpoint_eq clock_polled
        WAIT_DEV_ENDPOINT_READY_INTERVAL_IN_SEC_def UPDATE_DEV_ENDPOINT_TIMEOUT_IN_SEC_def)
qed

subsection \<open>The circuit breaker\<close>

text \<open>
  One pass through the loop body of \<open>switch_daemon\<close> on the pair of the counter and the
  world, the guard left aside; \<open>switch_pass ^^ n\<close> is \<open>n\<close> passes.
\<close>

definition switch_pass :: "nat \<times> world \<Rightarrow> nat \<times> world" where
  "switch_pass s =
     (case switch_daemon_iteration (fst s) (snd s) of
        (Inl e, w') \<Rightarrow> (fst s, w')
      | (Inr failed_count', w') \<Rightarrow> (failed_count', w'))"

definition switch_tick_raises :: "world \<Rightarrow> bool" where
  "switch_tick_raises w = isl (fst (switch_tick (snd (logger INFO ''switch_daemon checking'' w))))"

text \<open>A notebook without the tag \<open>aws-glue-dev-endpoint\<close>.\<close>

definition untagged_world :: world where
  "untagged_world = fresh_world\<lparr>list_tags_replies := (\<lambda>_. Inr [])\<rparr>"

lemma switch_pass_eq:
  "switch_pass (failed_count, w) =
     (if switch_tick_raises w then failed_count + 1 else 0,
      snd (switch_daemon_iteration failed_count w))"
  by (simp add: switch_pass_def switch_tick_raises_def switch_daemon_iteration_eq
      split: prod.splits sum.splits)

lemma fst_switch_pass:
  "fst (switch_pass s) = (if switch_tick_raises (snd s) then fst s + 1 else 0)"
  by (cases s) (simp add: switch_pass_eq)

lemma switch_daemon_loop_step:
  "switch_daemon_loop failed_count w =
     (if of_nat failed_count < SWITCH_MAX_FAIL_COUNT
      then switch_daemon_loop (fst (switch_pass (failed_count, w))) (snd (switch_pass (failed_count, w)))
      else Some (Inr failed_count, w))"
  by (subst switch_daemon_loop.simps)
     (simp add: switch_pass_def switch_daemon_iteration_eq split: prod.splits sum.splits)

lemma SWITCH_MAX_FAIL_COUNT_eq: "SWITCH_MAX_FAIL_COUNT = 5760"
  by (simp add: SWITCH_MAX_FAIL_COUNT_def HOUR_IN_SEC_def SWITCH_INTERVAL_IN_SEC_def
      MAX_FAIL_DURATION_IN_HOUR_def)

lemma RECONNECT_MAX_FAIL_COUNT_eq: "RECONNECT_MAX_FAIL_COUNT = 576"
  by (simp add: RECONNECT_MAX_FAIL_COUNT_def HOUR_IN_SEC_def RECONNECT_INTERVAL_IN_SEC_def
      MAX_FAIL_DURATION_IN_HOUR_def)

lemma switch_guard: "(of_nat failed_count < SWITCH_MAX_FAIL_COUNT) = (failed_count < 5760)"
proof -
  have "(of_nat failed_count < (of_nat 5760 :: rat)) = (failed_count < 5760)"
    by (rule of_nat_less_iff)
  then show ?thesis by (simp add: SWITCH_MAX_FAIL_COUNT_eq)
qed

lemma switch_daemon_loop_halts:
  assumes "\<forall>m<n. fst ((switch_pass ^^ m) (failed_count, w)) < 5760"
    and "5760 \<le> fst ((switch_pass ^^ n) (failed_count, w))"
  shows "switch_daemon_loop failed_count w =
     Some (Inr (fst ((switch_pass ^^ n) (failed_count, w))), snd ((switch_pass ^^ n) (failed_count, w)))"
  using assms
proof (induction n arbitrary: failed_count w)
  case 0
  then show ?case
    by (subst switch_daemon_loop_step) (simp add: switch_guard)
next
  case (Suc n)
  obtain fc' w' where s: "switch_pass (failed_count, w) = (fc', w')"
    by (cases "switch_pass (failed_count, w)")
  from Suc.prems(1) have "fst ((switch_pass ^^ 0) (failed_count, w)) < 5760"
    by blast
  then have guard: "failed_count < 5760" by simp
  have below: "\<forall>m<n. fst ((switch_pass ^^ m) (fc', w')) < 5760"
  proof (intro allI impI)
    fix m assume "m < n"
    then have "Suc m < Suc n" by simp
    with Suc.prems(1) have "fst ((switch_pass ^^ Suc m) (failed_count, w)) < 5760"
      by blast
    then show "fst ((switch_pass ^^ m) (fc', w')) < 5760"
      by (simp add: funpow_swap1 s)
  qed
  from Suc.prems(2) have reach: "5760 \<le> fst ((switch_pass ^^ n) (fc', w'))"
    by (simp add: funpow_swap1 s)
  have "switch_daemon_loop failed_count w = switch_daemon_loop fc' w'"
    using guard by (subst switch_daemon_loop_step) (simp add: switch_guard s)
  also have "\<dots> = Some (Inr (fst ((switch_pass ^^ n) (fc', w'))), snd ((switch_pass ^^ n) (fc', w')))"
    using below reach by (rule Suc.IH)
  finally show ?case by (simp add: funpow_swap1 s)
qed

lemma switch_daemon_loop_halted:
  assumes "switch_daemon_loop failed_count w = Some res"
  shows "\<exists>n. (\<forall>m<n. fst ((switch_pass ^^ m) (failed_count, w)) < 5760) \<and>
              5760 \<le> fst ((switch_pass ^^ n) (failed_count, w)) \<and>
              res = (Inr (fst ((switch_pass ^^ n) (failed_count, w))),
                     snd ((switch_pass ^^ n) (failed_count, w)))"
proof (rule switch_daemon_loop.raw_induct
    [where P = "\<lambda>failed_count w res. \<exists>n. (\<forall>m<n. fst ((switch_pass ^^ m) (failed_count, w)) < 5760) \<and>
              5760 \<le> fst ((switch_pass ^^ n) (failed_count, w)) \<and>
              res = (Inr (fst ((switch_pass ^^ n) (failed_count, w))),
                     snd ((switch_pass ^^ n) (failed_count, w)))", OF _ assms])
  fix loop :: "nat \<Rightarrow> world \<Rightarrow> ((error + nat) \<times> world) option" and failed_count w res
  assume IH: "\<And>failed_count w res. loop failed_count w = Some res \<Longrightarrow>
      \<exists>n. (\<forall>m<n. fst ((switch_pass ^^ m) (failed_count, w)) < 5760) \<and>
          5760 \<le> fst ((switch_pass ^^ n) (failed_count, w)) \<and>
          res = (Inr (fst ((switch_pass ^^ n) (failed_count, w))),
                 snd ((switch_pass ^^ n) (failed_count, w)))"
    and eq: "(if of_nat failed_count < SWITCH_MAX_FAIL_COUNT then
        (case switch_daemon_iteration failed_count w of
           (Inl e, w') \<Rightarrow> Some (Inl e, w')
         | (Inr failed_count', w') \<Rightarrow> loop failed_count' w')
      else Some (Inr failed_count, w)) = Some res"
  show "\<exists>n. (\<forall>m<n. fst ((switch_pass ^^ m) (failed_count, w)) < 5760) \<and>
          5760 \<le> fst ((switch_pass ^^ n) (failed_count, w)) \<and>
          res = (Inr (fst ((switch_pass ^^ n) (failed_count, w))),
                 snd ((switch_pass ^^ n) (failed_count, w)))"
  proof (cases "failed_count < 5760")
    case False
    with eq have "res = (Inr failed_count, w)" by (simp add: switch_guard)
    with False show ?thesis by (intro exI [of _ 0]) simp
  next
    case True
    obtain fc' w' where s: "switch_pass (failed_count, w) = (fc', w')"
      by (cases "switch_pass (failed_count, w)")
    then have "switch_daemon_iteration failed_count w = (Inr fc', w')"
      by (simp add: switch_pass_def switch_daemon_iteration_eq split: prod.splits sum.splits)
    with eq True have "loop fc' w' = Some res" by (simp add: switch_guard)
    then obtain n where n: "\<forall>m<n. fst ((switch_pass ^^ m) (fc', w')) < 5760"
      "5760 \<le> fst ((switch_pass ^^ n) (fc', w'))"
      "res = (Inr (fst ((switch_pass ^^ n) (fc', w'))), snd ((switch_pass ^^ n) (fc', w')))"
      using IH by blast
    have "\<forall>m<Suc n. fst ((switch_pass ^^ m) (failed_count, w)) < 5760"
    proof (intro allI impI)
      fix m assume m: "m < Suc n"
      show "fst ((switch_pass ^^ m) (failed_count, w)) < 5760"
      proof (cases m)
        case 0
        with True show ?thesis by simp
      next
        case (Suc m')
        with m n(1) show ?thesis by (simp add: funpow_swap1 s)
      qed
    qed
    with n(2,3) show ?thesis
      by (intro exI [of _ "Suc n"]) (simp add: funpow_swap1 s)
  qed
qed

text \<open>The counter after \<open>n\<close> passes counts the ticks that raised since the last one that did not.\<close>

lemma switch_counter_run:
  "fst ((switch_pass ^^ n) (0, w)) \<le> n \<and>
   (\<forall>m. n - fst ((switch_pass ^^ n) (0, w)) \<le> m \<and> m < n \<longrightarrow>
        switch_tick_raises (snd ((switch_pass ^^ m) (0, w))))"
proof (induction n)
  case 0
  then show ?case by simp
next
  case (Suc n)
  let ?s = "(switch_pass ^^ n) (0, w)"
  show ?case
  proof (cases "switch_tick_raises (snd ?s)")
    case False
    then show ?thesis by (auto simp add: fst_switch_pass)
  next
    case True
    then have c: "fst ((switch_pass ^^ Suc n) (0, w)) = fst ?s + 1"
      by (simp add: fst_switch_pass)
    have "switch_tick_raises (snd ((switch_pass ^^ m) (0, w)))"
      if "Suc n - (fst ?s + 1) \<le> m" and "m < Suc n" for m
    proof (cases "m = n")
      case True
      with \<open>switch_tick_raises (snd ?s)\<close> show ?thesis by simp
    next
      case False
      with that have "n - fst ?s \<le> m \<and> m < n" by arith
      with Suc.IH show ?thesis by blast
    qed
    with c Suc.IH show ?thesis by simp
  qed
qed

lemma switch_counter_all_raise:
  assumes "\<forall>m<n. switch_tick_raises (snd ((switch_pass ^^ m) (0, w)))"
  shows "fst ((switch_pass ^^ n) (0, w)) = n"
  using assms by (induction n) (simp_all add: fst_switch_pass)

lemma switch_counter_first_reach:
  assumes "\<forall>m<n. fst ((switch_pass ^^ m) (0, w)) < 5760"
    and "5760 \<le> fst ((switch_pass ^^ n) (0, w))"
  shows "fst ((switch_pass ^^ n) (0, w)) = 5760"
proof (cases n)
  case 0
  with assms(2) show ?thesis by simp
next
  case (Suc n')
  with assms(1) have "fst ((switch_pass ^^ n') (0, w)) < 5760" by simp
  moreover have "fst ((switch_pass ^^ n) (0, w)) \<le> fst ((switch_pass ^^ n') (0, w)) + 1"
    by (simp add: Suc fst_switch_pass)
  ultimately show ?thesis using assms(2) by simp
qed


text \<open>
  C3. Both thresholds are \<open>(maxFailHours * 3600) / tickIntervalSeconds\<close>: 5760 for the
  switch daemon and 576 for the reconnect daemon. If the first 5760 ticks of the switch
  daemon all raise, its loop stops right after them, with the counter at 5760. And
  whenever the loop stops, the counter is exactly 5760, the 5760 ticks just before the
  stop all raised, and the counter was below 5760 before every tick that ran.
\<close>

theorem circuit_breaker_threshold:
  "SWITCH_MAX_FAIL_COUNT =
     of_nat (MAX_FAIL_DURATION_IN_HOUR * 3600) / of_nat SWITCH_INTERVAL_IN_SEC \<and>
   SWITCH_MAX_FAIL_COUNT = 5760 \<and>
   RECONNECT_MAX_FAIL_COUNT =
     of_nat (MAX_FAIL_DURATION_IN_HOUR * 3600) / of_nat RECONNECT_INTERVAL_IN_SEC \<and>
   RECONNECT_MAX_FAIL_COUNT = 576 \<and>
   ((\<forall>m<5760. switch_tick_raises (snd ((switch_pass ^^ m) (0, w)))) \<longrightarrow>
      switch_daemon_loop 0 w = Some (Inr 5760, snd ((switch_pass ^^ 5760) (0, w)))) \<and>
   (switch_daemon_loop 0 w = Some (r, w') \<longrightarrow>
      r = Inr 5760 \<and>
      (\<exists>n\<ge>5760. w' = snd ((switch_pass ^^ n) (0, w)) \<and>
         (\<forall>m. n - 5760 \<le> m \<and> m < n \<longrightarrow>
              switch_tick_raises (snd ((switch_pass ^^ m) (0, w)))) \<and>
         (\<forall>m<n. fst ((switch_pass ^^ m) (0, w)) < 5760)))"
proof (intro conjI impI)
  show "SWITCH_MAX_FAIL_COUNT =
     of_nat (MAX_FAIL_DURATION_IN_HOUR * 3600) / of_nat SWITCH_INTERVAL_IN_SEC"
    by (simp add: SWITCH_MAX_FAIL_COUNT_def HOUR_IN_SEC_def SWITCH_INTERVAL_IN_SEC_def
        MAX_FAIL_DURATION_IN_HOUR_def)
  show "SWITCH_MAX_FAIL_COUNT = 5760"
    by (rule SWITCH_MAX_FAIL_COUNT_eq)
  show "RECONNECT_MAX_FAIL_COUNT =
     of_nat (MAX_FAIL_DURATION_IN_HOUR * 3600) / of_nat RECONNECT_INTERVAL_IN_SEC"
    by (simp add: RECONNECT_MAX_FAIL_COUNT_def HOUR_IN_SEC_def RECONNECT_INTERVAL_IN_SEC_def
        MAX_FAIL_DURATION_IN_HOUR_def)
  show "RECONNECT_MAX_FAIL_COUNT = 576"
    by (rule RECONNECT_MAX_FAIL_COUNT_eq)
next
  assume all: "\<forall>m<5760. switch_tick_raises (snd ((switch_pass ^^ m) (0, w)))"
  have count: "fst ((switch_pass ^^ m) (0, w)) = m" if "m \<le> 5760" for m
    using all that by (intro switch_counter_all_raise) simp
  have "\<forall>m<5760. fst ((switch_pass ^^ m) (0, w)) < 5760"
    by (simp add: count)
  moreover have "5760 \<le> fst ((switch_pass ^^ 5760) (0, w))"
    by (simp add: count)
  ultimately have "switch_daemon_loop 0 w =
      Some (Inr (fst ((switch_pass ^^ 5760) (0, w))), snd ((switch_pass ^^ 5760) (0, w)))"
    by (rule switch_daemon_loop_halts)
  then show "switch_daemon_loop 0 w = Some (Inr 5760, snd ((switch_pass ^^ 5760) (0, w)))"
    by (simp add: count)
next
  assume "switch_daemon_loop 0 w = Some (r, w')"
  then obtain n where below: "\<forall>m<n. fst ((switch_pass ^^ m) (0, w)) < 5760"
    and reach: "5760 \<le> fst ((switch_pass ^^ n) (0, w))"
    and res: "(r, w') = (Inr (fst ((switch_pass ^^ n) (0, w))), snd ((switch_pass ^^ n) (0, w)))"
    using switch_daemon_loop_halted by blast
  from below reach have c: "fst ((switch_pass ^^ n) (0, w)) = 5760"
    by (rule switch_counter_first_reach)
  with res show "r = Inr 5760" by simp
  from switch_counter_run [of n w] c
  have "5760 \<le> n"
    and "\<forall>m. n - 5760 \<le> m \<and> m < n \<longrightarrow> switch_tick_raises (snd ((switch_pass ^^ m) (0, w)))"
    by simp_all
  with res below
  show "\<exists>n\<ge>5760. w' = snd ((switch_pass ^^ n) (0, w)) \<and>
         (\<forall>m. n - 5760 \<le> m \<and> m < n \<longrightarrow>
              switch_tick_raises (snd ((switch_pass ^^ m) (0, w)))) \<and>
         (\<forall>m<n. fst ((switch_pass ^^ m) (0, w)) < 5760)"
    by (intro exI [of _ n]) simp
qed

lemma get_current_dev_endpoint_returns:
  "\<exists>current w'. get_current_dev_endpoint w = (Inr current, w') \<and>
     list_tags_replies w' = list_tags_replies w"
  by (simp add: get_current_dev_endpoint_def io_defs split: option.splits)

lemma untagged_get_latest:
  assumes "list_tags_replies w = (\<lambda>_. Inr [])"
  shows "\<exists>e w'. get_latest_dev_endpoint w = (Inl e, w') \<and> list_tags_replies w' = (\<lambda>_. Inr [])"
  using assms by (simp add: get_latest_dev_endpoint_def io_defs)

lemma untagged_switch_tick:
  assumes "list_tags_replies w = (\<lambda>_. Inr [])"
  shows "\<exists>e w'. switch_tick w = (Inl e, w') \<and> list_tags_replies w' = (\<lambda>_. Inr [])"
proof -
  obtain current w1 where c: "get_current_dev_endpoint w = (Inr current, w1)"
    and "list_tags_replies w1 = list_tags_replies w"
    using get_current_dev_endpoint_returns by blast
  with assms have "list_tags_replies w1 = (\<lambda>_. Inr [])" by simp
  then obtain e w2 where "get_latest_dev_endpoint w1 = (Inl e, w2)"
    and "list_tags_replies w2 = (\<lambda>_. Inr [])"
    using untagged_get_latest by blast
  with c show ?thesis
    by (simp add: switch_tick_def bind_io_def)
qed

lemma untagged_tick:
  assumes "list_tags_replies w = (\<lambda>_. Inr [])"
  shows "switch_tick_raises w"
    and "list_tags_replies (snd (switch_pass (failed_count, w))) = (\<lambda>_. Inr [])"
proof -
  let ?w0 = "snd (logger INFO ''switch_daemon checking'' w)"
  from assms have "list_tags_replies ?w0 = (\<lambda>_. Inr [])"
    by (simp add: logger_def emit_def)
  then obtain e w' where t: "switch_tick ?w0 = (Inl e, w')"
    and l: "list_tags_replies w' = (\<lambda>_. Inr [])"
    using untagged_switch_tick by blast
  from t show "switch_tick_raises w"
    by (simp add: switch_tick_raises_def)
  from t l show "list_tags_replies (snd (switch_pass (failed_count, w))) = (\<lambda>_. Inr [])"
    by (simp add: switch_pass_eq switch_daemon_iteration_eq logger_def time_sleep_def emit_def)
qed

lemma untagged_passes:
  "list_tags_replies (snd ((switch_pass ^^ m) (0, untagged_world))) = (\<lambda>_. Inr [])"
proof (induction m)
  case 0
  show ?case by (simp add: untagged_world_def)
next
  case (Suc m)
  then show ?case
    using untagged_tick(2) [of "snd ((switch_pass ^^ m) (0, untagged_world))"
        "fst ((switch_pass ^^ m) (0, untagged_world))"]
    by simp
qed

theorem circuit_breaker_threshold_witness:
  "switch_daemon_loop 0 untagged_world =
     Some (Inr 5760, snd ((switch_pass ^^ 5760) (0, untagged_world)))"
proof -
  have "\<forall>m<5760. switch_tick_raises (snd ((switch_pass ^^ m) (0, untagged_world)))"
    by (simp add: untagged_tick(1) untagged_passes)
  with circuit_breaker_threshold [of untagged_world] show ?thesis
    by blast
qed


subsection \<open>Invariants of the connection protocol\<close>

text \<open>
  \<open>key_quiet\<close>: kept as well by what \<open>connect_dev_endpoint\<close> does to the key files and
  the tunnel-target file; \<open>connect_quiet\<close>: kept by everything it does.
\<close>

definition key_quiet :: "(world \<Rightarrow> bool) \<Rightarrow> bool" where
  "key_quiet I =
     (quiet I \<and>
      preserves I (os_remove SSH_KEY_PRIVATE_PATH) \<and>
      preserves I (path_mkdir SSH_KEY_DIR) \<and>
      (\<forall>comment. preserves I (ssh_keygen SSH_KEY_PRIVATE_PATH comment)) \<and>
      preserves I (os_chmod SSH_KEY_PRIVATE_PATH) \<and>
      (\<forall>a. preserves I (file_write AUTO_SSH_HOST_PATH a)))"

definition connect_quiet :: "(world \<Rightarrow> bool) \<Rightarrow> bool" where
  "connect_quiet I =
     (key_quiet I \<and>
      (\<forall>url t. preserves I (requests_get url t)) \<and>
      (\<forall>n. preserves I (file_write CURRENT_DEV_ENDPOINT_PATH n)))"

lemma key_quiet_quiet: "key_quiet I \<Longrightarrow> quiet I"
  by (simp add: key_quiet_def)

lemma key_quiet_generate_ssh_keypair:
  assumes "key_quiet I"
  shows "preserves I generate_ssh_keypair"
proof -
  from assms have q: "quiet I" by (rule key_quiet_quiet)
  have keygen: "preserves I (\<lambda>w. ssh_keygen SSH_KEY_PRIVATE_PATH (notebook_name w) w)"
    using assms by (simp add: key_quiet_def preserves_def)
  from assms have prims: "preserves I (os_remove SSH_KEY_PRIVATE_PATH)"
    "preserves I (path_mkdir SSH_KEY_DIR)" "preserves I (os_chmod SSH_KEY_PRIVATE_PATH)"
    by (simp_all add: key_quiet_def)
  show ?thesis
    unfolding generate_ssh_keypair_def
    by (intro preserves_intros quiet_prims [OF q] quiet_get_public_key [OF q] keygen prims)
qed

lemma add_public_key_preserves:
  assumes q: "quiet I" and wr: "\<And>a. preserves I (file_write AUTO_SSH_HOST_PATH a)"
  shows "preserves I (add_public_key n)"
  unfolding add_public_key_def
  by (intro preserves_intros quiet_prims [OF q] quiet_get_public_key [OF q]
      quiet_wait [OF q] wr)

lemma key_quiet_add_public_key: "key_quiet I \<Longrightarrow> preserves I (add_public_key n)"
  by (rule add_public_key_preserves) (simp_all add: key_quiet_def)

lemma connect_quiet_connect:
  assumes "connect_quiet I"
  shows "preserves I (connect_dev_endpoint n)"
proof -
  from assms have k: "key_quiet I" by (simp add: connect_quiet_def)
  then have q: "quiet I" by (rule key_quiet_quiet)
  from assms have rg: "preserves I (requests_get url t)" for url t
    by (simp add: connect_quiet_def)
  from assms have wr: "preserves I (file_write CURRENT_DEV_ENDPOINT_PATH n)"
    by (simp add: connect_quiet_def)
  have ping: "preserves I ping_livy"
    unfolding ping_livy_def by (intro preserves_intros quiet_prims [OF q] rg)
  have save: "preserves I (save_current_dev_endpoint n)"
    unfolding save_current_dev_endpoint_def by (intro preserves_intros quiet_prims [OF q] wr)
  show ?thesis
    unfolding connect_dev_endpoint_def
    by (intro preserves_intros quiet_prims [OF q] quiet_delete_public_keys_if_has [OF q]
        key_quiet_generate_ssh_keypair [OF k] key_quiet_add_public_key [OF k]
        quiet_start_autossh [OF q] ping save quiet_update_connection_tag [OF q])
qed

lemma path_distinct:
  "CURRENT_DEV_ENDPOINT_PATH \<noteq> SSH_KEY_PRIVATE_PATH"
  "CURRENT_DEV_ENDPOINT_PATH \<noteq> SSH_KEY_PUBLIC_PATH"
  "CURRENT_DEV_ENDPOINT_PATH \<noteq> AUTO_SSH_HOST_PATH"
  "CURRENT_DEV_ENDPOINT_PATH \<noteq> SSH_KEY_DIR"
  "SSH_KEY_PUBLIC_PATH \<noteq> AUTO_SSH_HOST_PATH"
  "SSH_KEY_PUBLIC_PATH \<noteq> CURRENT_DEV_ENDPOINT_PATH"
  "SSH_KEY_PUBLIC_PATH \<noteq> SSH_KEY_PRIVATE_PATH"
  "SSH_KEY_PUBLIC_PATH \<noteq> SSH_KEY_DIR"
  "SSH_KEY_PRIVATE_PATH \<noteq> CURRENT_DEV_ENDPOINT_PATH"
  "SSH_KEY_PRIVATE_PATH \<noteq> SSH_KEY_PUBLIC_PATH"
  "SSH_KEY_PRIVATE_PATH \<noteq> AUTO_SSH_HOST_PATH"
  "SSH_KEY_PRIVATE_PATH \<noteq> SSH_KEY_DIR"
  "AUTO_SSH_HOST_PATH \<noteq> CURRENT_DEV_ENDPOINT_PATH"
  "AUTO_SSH_HOST_PATH \<noteq> SSH_KEY_PUBLIC_PATH"
  "AUTO_SSH_HOST_PATH \<noteq> SSH_KEY_PRIVATE_PATH"
  "AUTO_SSH_HOST_PATH \<noteq> SSH_KEY_DIR"
  "SSH_KEY_DIR \<noteq> CURRENT_DEV_ENDPOINT_PATH"
  "SSH_KEY_DIR \<noteq> SSH_KEY_PUBLIC_PATH"
  "SSH_KEY_DIR \<noteq> SSH_KEY_PRIVATE_PATH"
  "SSH_KEY_DIR \<noteq> AUTO_SSH_HOST_PATH"
  by (simp_all add: const_defs)

lemma public_path_fold: "SSH_KEY_PRIVATE_PATH @ ''.pub'' = SSH_KEY_PUBLIC_PATH"
  by (simp add: SSH_KEY_PUBLIC_PATH_def)

lemmas path_simps = path_distinct public_path_fold


text \<open>The binding file is touched by nothing but its own write and remove.\<close>

lemma binding_quiet: "quiet (\<lambda>w. files w CURRENT_DEV_ENDPOINT_PATH = b)"
  by (auto simp add: quiet_def preserves_def io_defs split: option.splits)

lemma disconnect_keeps_binding:
  "files (snd (disconnect_dev_endpoint n w)) CURRENT_DEV_ENDPOINT_PATH =
     files w CURRENT_DEV_ENDPOINT_PATH"
  using quiet_disconnect [OF binding_quiet, of "files w CURRENT_DEV_ENDPOINT_PATH" n]
  by (simp add: preserves_def)

text \<open>Events are only ever appended, and only \<open>remove_dev_endpoint\<close> removes the binding file.\<close>

lemma prefix_trace_connect_quiet: "connect_quiet (\<lambda>w. prefix t (trace w))"
  unfolding connect_quiet_def key_quiet_def
  by (intro conjI allI prefix_trace_quiet)
     (auto simp add: preserves_def io_defs prefix_def split: option.splits)

text \<open>\<open>never_added x t\<close>: the trace is \<open>t\<close> followed by events other than \<open>x\<close>.\<close>

definition never_added :: "event \<Rightarrow> event list \<Rightarrow> world \<Rightarrow> bool" where
  "never_added x t w = (\<exists>es. trace w = t @ es \<and> x \<notin> set es)"

lemma preserves_never_added:
  assumes "\<And>w. trace (snd (m w)) = trace w \<or>
      (\<exists>e. e \<noteq> x \<and> trace (snd (m w)) = trace w @ [e])"
  shows "preserves (never_added x t) m"
  unfolding preserves_def
proof (intro allI impI)
  fix w assume "never_added x t w"
  then obtain es where es: "trace w = t @ es" "x \<notin> set es"
    by (auto simp add: never_added_def)
  from assms [of w] show "never_added x t (snd (m w))"
  proof
    assume "trace (snd (m w)) = trace w"
    with es show ?thesis by (auto simp add: never_added_def)
  next
    assume "\<exists>e. e \<noteq> x \<and> trace (snd (m w)) = trace w @ [e]"
    then obtain e where "e \<noteq> x" and "trace (snd (m w)) = t @ (es @ [e])"
      using es by auto
    with es(2) show ?thesis
      unfolding never_added_def by (intro exI [of _ "es @ [e]"]) simp
  qed
qed

lemma binding_removal_never_added:
  "connect_quiet (never_added (FileRemove CURRENT_DEV_ENDPOINT_PATH) t)"
  unfolding connect_quiet_def key_quiet_def quiet_def
  by (intro conjI allI preserves_never_added)
     (auto simp add: io_defs path_simps split: option.splits)


subsection \<open>The switch tick\<close>

text \<open>The binding file names \<open>epA\<close>, the notebook's tag names \<open>epB\<close>.\<close>

definition retagged_world :: world where
  "retagged_world = bound_world\<lparr>list_tags_replies :=
     (\<lambda>_. Inr [(''aws-glue-dev-endpoint'', ''epB'')])\<rparr>"

lemma get_current_dev_endpoint_Some:
  assumes "get_current_dev_endpoint w = (Inr (Some current), w1)"
  shows "files w CURRENT_DEV_ENDPOINT_PATH = Some current" and "files w1 = files w"
  using assms
  by (auto simp add: get_current_dev_endpoint_def io_defs split: if_splits option.splits)

lemma get_latest_dev_endpoint_files: "files (snd (get_latest_dev_endpoint w)) = files w"
  by (simp add: get_latest_dev_endpoint_def io_defs split: sum.splits list.splits)

lemma remove_dev_endpoint_present:
  assumes "files w CURRENT_DEV_ENDPOINT_PATH = Some current"
    and "remove_dev_endpoint n w = (Inr (), w')"
  shows "files w' CURRENT_DEV_ENDPOINT_PATH = None"
    and "trace w' = trace w @
      [Log INFO ''Removing current_dev_endpoint={dev_endpoint_name}'',
       FileRemove CURRENT_DEV_ENDPOINT_PATH,
       Log INFO ''Removed current_dev_endpoint={dev_endpoint_name}'']"
  using assms by (auto simp add: remove_dev_endpoint_def io_defs split: if_splits)

lemma disconnect_first_event:
  "prefix (trace w @ [Log INFO ''Disconnecting from dev_endpoint={dev_endpoint_name}''])
     (trace (snd (disconnect_dev_endpoint n w)))"
proof -
  let ?t = "trace w @ [Log INFO ''Disconnecting from dev_endpoint={dev_endpoint_name}'']"
  let ?rest = "seq_io (delete_public_keys_if_has n)
    (seq_io stop_autossh
    (seq_io (update_connection_tag ''disconnected'')
            (logger INFO ''Disconnected from dev_endpoint={dev_endpoint_name}'')))"
  have q: "quiet (\<lambda>w. prefix ?t (trace w))" by (rule prefix_trace_quiet)
  have "preserves (\<lambda>w. prefix ?t (trace w)) ?rest"
    by (intro preserves_intros quiet_prims [OF q] quiet_delete_public_keys_if_has [OF q]
        quiet_stop_autossh [OF q] quiet_update_connection_tag [OF q])
  moreover have "disconnect_dev_endpoint n w =
      ?rest (snd (logger INFO ''Disconnecting from dev_endpoint={dev_endpoint_name}'' w))"
    by (simp add: disconnect_dev_endpoint_def seq_io_def bind_io_def logger_def)
  ultimately show ?thesis
    by (simp add: preserves_def logger_def emit_def)
qed

text \<open>What follows the removal of the binding in a switch tick, as one operation.\<close>

lemma switch_rest_preserves:
  assumes "connect_quiet I"
  shows "preserves I (seq_io (disconnect_dev_endpoint current)
     (seq_io (if latest \<noteq> [] then connect_dev_endpoint latest else return_io ())
        (logger INFO ''dev_endpoint changed from {current_dev_endpoint} to {latest_dev_endpoint}'')))"
    and "preserves I
     (seq_io (if latest \<noteq> [] then connect_dev_endpoint latest else return_io ())
        (logger INFO ''dev_endpoint changed from {current_dev_endpoint} to {latest_dev_endpoint}''))"
proof -
  from assms have q: "quiet I" by (simp add: connect_quiet_def key_quiet_def)
  show "preserves I (seq_io (disconnect_dev_endpoint current)
     (seq_io (if latest \<noteq> [] then connect_dev_endpoint latest else return_io ())
        (logger INFO ''dev_endpoint changed from {current_dev_endpoint} to {latest_dev_endpoint}'')))"
    by (intro preserves_intros quiet_prims [OF q] quiet_disconnect [OF q]
        connect_quiet_connect [OF assms])
  show "preserves I
     (seq_io (if latest \<noteq> [] then connect_dev_endpoint latest else return_io ())
        (logger INFO ''dev_endpoint changed from {current_dev_endpoint} to {latest_dev_endpoint}''))"
    by (intro preserves_intros quiet_prims [OF q] connect_quiet_connect [OF assms])
qed

text \<open>
  C5. Take a switch tick that reads the binding \<open>current\<close>, not empty, and a desired
  target \<open>latest\<close> different from it. The binding file still holds \<open>current\<close> when
  \<open>remove_dev_endpoint\<close> starts. If the removal raises, the tick ends there and
  \<open>disconnect_dev_endpoint\<close> is never called. If it returns, the binding file is gone
  before the first event of the disconnect, it stays absent throughout the
  disconnect, and no removal of the binding file happens during the disconnect or later
  in the tick.
\<close>

theorem switch_clears_binding_before_disconnect:
  assumes "get_current_dev_endpoint w = (Inr (Some current), w1)"
    and "current \<noteq> []"
    and "get_latest_dev_endpoint w1 = (Inr latest, w2)"
    and "latest \<noteq> current"
    and "w3 = snd (logger INFO
       ''dev_endpoint changing from {current_dev_endpoint} to {latest_dev_endpoint}'' w2)"
    and "remove_dev_endpoint current w3 = (r, w4)"
  shows "files w3 CURRENT_DEV_ENDPOINT_PATH = Some current \<and>
     (r \<noteq> Inr () \<longrightarrow> switch_tick w = (r, w4)) \<and>
     (r = Inr () \<longrightarrow>
        files w4 CURRENT_DEV_ENDPOINT_PATH = None \<and>
        trace w4 = trace w3 @
          [Log INFO ''Removing current_dev_endpoint={dev_endpoint_name}'',
           FileRemove CURRENT_DEV_ENDPOINT_PATH,
           Log INFO ''Removed current_dev_endpoint={dev_endpoint_name}''] \<and>
        files (snd (disconnect_dev_endpoint current w4)) CURRENT_DEV_ENDPOINT_PATH = None \<and>
        prefix (trace (snd (disconnect_dev_endpoint current w4))) (trace (snd (switch_tick w))) \<and>
        (\<exists>es. trace (snd (switch_tick w)) =
                trace w4 @ Log INFO ''Disconnecting from dev_endpoint={dev_endpoint_name}'' # es \<and>
              FileRemove CURRENT_DEV_ENDPOINT_PATH \<notin> set es))"
proof (intro conjI impI)
  let ?rest = "seq_io (if latest \<noteq> [] then connect_dev_endpoint latest else return_io ())
        (logger INFO ''dev_endpoint changed from {current_dev_endpoint} to {latest_dev_endpoint}'')"
  have tick: "switch_tick w =
      seq_io (seq_io (remove_dev_endpoint current) (disconnect_dev_endpoint current)) ?rest w3"
    using assms(1-5) by (simp add: switch_tick_def bind_io_def seq_io_def logger_def)
  have "files w1 CURRENT_DEV_ENDPOINT_PATH = Some current"
    using get_current_dev_endpoint_Some [OF assms(1)] by simp
  moreover have "files w2 = files w1"
    using get_latest_dev_endpoint_files [of w1] assms(3) by simp
  ultimately show present: "files w3 CURRENT_DEV_ENDPOINT_PATH = Some current"
    using assms(5) by (simp add: logger_def emit_def)
  {
    assume "r \<noteq> Inr ()"
    then obtain e where "r = Inl e" by (cases r) simp_all
    with tick assms(6) show "switch_tick w = (r, w4)"
      by (simp add: seq_io_def bind_io_def)
  }
  assume r: "r = Inr ()"
  with assms(6) have removed: "remove_dev_endpoint current w3 = (Inr (), w4)" by simp
  from remove_dev_endpoint_present [OF present removed]
  show gone: "files w4 CURRENT_DEV_ENDPOINT_PATH = None"
    and "trace w4 = trace w3 @
          [Log INFO ''Removing current_dev_endpoint={dev_endpoint_name}'',
           FileRemove CURRENT_DEV_ENDPOINT_PATH,
           Log INFO ''Removed current_dev_endpoint={dev_endpoint_name}'']"
    by simp_all
  from gone show "files (snd (disconnect_dev_endpoint current w4)) CURRENT_DEV_ENDPOINT_PATH = None"
    by (simp add: disconnect_keeps_binding)
  let ?w5 = "snd (disconnect_dev_endpoint current w4)"
  from tick removed have tick4: "switch_tick w = seq_io (disconnect_dev_endpoint current) ?rest w4"
    by (simp add: seq_io_def bind_io_def)
  have "prefix (trace ?w5) (trace (snd (?rest ?w5)))"
    using switch_rest_preserves(2) [OF prefix_trace_connect_quiet, of "trace ?w5" latest]
    by (simp add: preserves_def)
  with tick4 show after: "prefix (trace ?w5) (trace (snd (switch_tick w)))"
    by (cases "disconnect_dev_endpoint current w4") (auto simp add: seq_io_def bind_io_def split: sum.splits)
  have "never_added (FileRemove CURRENT_DEV_ENDPOINT_PATH) (trace w4) w4"
    by (simp add: never_added_def)
  with switch_rest_preserves(1) [OF binding_removal_never_added, of "trace w4" current latest]
  have "never_added (FileRemove CURRENT_DEV_ENDPOINT_PATH) (trace w4) (snd (switch_tick w))"
    by (simp add: preserves_def tick4)
  then obtain es where es: "trace (snd (switch_tick w)) = trace w4 @ es"
    "FileRemove CURRENT_DEV_ENDPOINT_PATH \<notin> set es"
    by (auto simp add: never_added_def)
  from disconnect_first_event [of w4 current] after
  have "prefix (trace w4 @ [Log INFO ''Disconnecting from dev_endpoint={dev_endpoint_name}''])
      (trace (snd (switch_tick w)))"
    by (rule prefix_order.trans)
  with es(1) obtain es' where "es = Log INFO ''Disconnecting from dev_endpoint={dev_endpoint_name}'' # es'"
    by (auto simp add: prefix_def)
  with es show "\<exists>es. trace (snd (switch_tick w)) =
                trace w4 @ Log INFO ''Disconnecting from dev_endpoint={dev_endpoint_name}'' # es \<and>
              FileRemove CURRENT_DEV_ENDPOINT_PATH \<notin> set es"
    by auto
qed


theorem switch_clears_binding_before_disconnect_witness:
  "\<exists>es. trace (snd (switch_tick retagged_world)) =
       [ListTags ''arn'',
        Log INFO ''dev_endpoint changing from {current_dev_endpoint} to {latest_dev_endpoint}'',
        Log INFO ''Removing current_dev_endpoint={dev_endpoint_name}'',
        FileRemove CURRENT_DEV_ENDPOINT_PATH,
        Log INFO ''Removed current_dev_endpoint={dev_endpoint_name}'',
        Log INFO ''Disconnecting from dev_endpoint={dev_endpoint_name}''] @ es \<and>
     FileRemove CURRENT_DEV_ENDPOINT_PATH \<notin> set es"
proof -
  let ?w1 = "snd (get_current_dev_endpoint retagged_world)"
  let ?w2 = "snd (get_latest_dev_endpoint ?w1)"
  let ?w3 = "snd (logger INFO
       ''dev_endpoint changing from {current_dev_endpoint} to {latest_dev_endpoint}'' ?w2)"
  let ?w4 = "snd (remove_dev_endpoint ''epA'' ?w3)"
  have c: "get_current_dev_endpoint retagged_world = (Inr (Some ''epA''), ?w1)"
    by (simp add: prod_eq_iff retagged_world_def bound_world_def fresh_world_def
        get_current_dev_endpoint_def io_defs)
  have l: "get_latest_dev_endpoint ?w1 = (Inr ''epB'', ?w2)"
    by (simp add: prod_eq_iff retagged_world_def bound_world_def fresh_world_def
        get_current_dev_endpoint_def get_latest_dev_endpoint_def io_defs)
  have r: "remove_dev_endpoint ''epA'' ?w3 = (Inr (), ?w4)"
    by (simp add: prod_eq_iff retagged_world_def bound_world_def fresh_world_def
        get_current_dev_endpoint_def get_latest_dev_endpoint_def remove_dev_endpoint_def io_defs)
  have t: "trace ?w3 = [ListTags ''arn'',
        Log INFO ''dev_endpoint changing from {current_dev_endpoint} to {latest_dev_endpoint}'']"
    by (simp add: retagged_world_def bound_world_def fresh_world_def
        get_current_dev_endpoint_def get_latest_dev_endpoint_def io_defs)
  have "''epA'' \<noteq> []" and "''epB'' \<noteq> ''epA''"
    by simp_all
  note all = switch_clears_binding_before_disconnect [OF c this(1) l this(2) refl r]
  note removed = conjunct2 [OF conjunct2 [OF all], rule_format, OF refl]
  note w4 = conjunct1 [OF conjunct2 [OF removed]]
  note rest = conjunct2 [OF conjunct2 [OF conjunct2 [OF conjunct2 [OF removed]]]]
  from rest
  obtain es where "trace (snd (switch_tick retagged_world)) =
      trace ?w4 @ Log INFO ''Disconnecting from dev_endpoint={dev_endpoint_name}'' # es"
    and "FileRemove CURRENT_DEV_ENDPOINT_PATH \<notin> set es"
    by blast
  with w4 t show ?thesis by simp
qed


subsection \<open>The probe inside connect\<close>













subsection \<open>Connect, then disconnect\<close>

text \<open>
  As \<open>fresh_world\<close>, but the sixth description of the endpoint, the one that
  \<open>disconnect_dev_endpoint\<close> asks for after a connect, lists the key the notebook has
  registered.
\<close>

definition listing_world :: world where
  "listing_world = fresh_world\<lparr>get_dev_endpoint_replies :=
     (\<lambda>j. if j = 5
          then Inr (idle_endpoint\<lparr>PublicKeys := Some [''ssh-rsa AAAA nb'' @ [CHR 0x0A]]\<rparr>)
          else Inr idle_endpoint)\<rparr>"

lemma seq_io_Inr:
  assumes "seq_io m k w = (Inr y, w')"
  obtains w1 where "m w = (Inr (), w1)" and "k w1 = (Inr y, w')"
  using assms by (auto simp add: seq_io_def bind_io_def split: prod.splits sum.splits)

lemma preserves_run: "preserves I m \<Longrightarrow> I w \<Longrightarrow> m w = (r, w') \<Longrightarrow> I w'"
  by (auto simp add: preserves_def)

lemma save_current_dev_endpoint_success:
  assumes "save_current_dev_endpoint n w = (Inr (), w')"
  shows "files w' CURRENT_DEV_ENDPOINT_PATH = Some n"
  using assms by (auto simp add: save_current_dev_endpoint_def io_defs split: if_splits)

text \<open>The public key file and the notebook's name, once the key pair is generated.\<close>

definition key_on_disk :: "string \<Rightarrow> string \<Rightarrow> world \<Rightarrow> bool" where
  "key_on_disk pk nb w = (files w SSH_KEY_PUBLIC_PATH = Some pk \<and> notebook_name w = nb)"

lemma key_on_disk_quiet: "quiet (key_on_disk pk nb)"
  by (auto simp add: quiet_def key_on_disk_def preserves_def io_defs split: option.splits)

lemma key_on_disk_writes:
  "preserves (key_on_disk pk nb) (file_write AUTO_SSH_HOST_PATH a)"
  "preserves (key_on_disk pk nb) (file_write CURRENT_DEV_ENDPOINT_PATH n)"
  "preserves (key_on_disk pk nb) (requests_get url t)"
  "preserves (key_on_disk pk nb) (os_chmod p)"
  by (auto simp add: key_on_disk_def preserves_def io_defs path_simps split: option.splits)

lemma notebook_name_key_quiet: "key_quiet (\<lambda>w. notebook_name w = nb)"
  by (auto simp add: key_quiet_def quiet_def preserves_def io_defs split: option.splits)

lemma ssh_keygen_success:
  assumes "ssh_keygen SSH_KEY_PRIVATE_PATH comment w = (Inr (), w')"
  shows "\<exists>material. key_on_disk (''ssh-rsa '' @ material @ '' '' @ comment @ [CHR 0x0A])
            (notebook_name w) w'"
  using assms
  by (auto simp add: key_on_disk_def io_defs path_simps split: option.splits)

lemma generate_ssh_keypair_success:
  assumes "generate_ssh_keypair w = (Inr (), w')"
  shows "\<exists>material. key_on_disk
     (''ssh-rsa '' @ material @ '' '' @ notebook_name w @ [CHR 0x0A]) (notebook_name w) w'"
proof -
  let ?prepare = "\<lambda>w. if os_path_exists SSH_KEY_DIR w then
          (if os_path_exists SSH_KEY_PRIVATE_PATH w then
             bind_io get_public_key (\<lambda>public_key.
               seq_io (logger WARNING ''Removing current SSH keypair {public_key}'')
              (seq_io (os_remove SSH_KEY_PRIVATE_PATH)
                      (logger WARNING ''Removed current SSH keypair {public_key}''))) w
           else return_io () w)
        else
          seq_io (logger INFO ''Creating directory at {SSH_KEY_DIR}'')
         (seq_io (path_mkdir SSH_KEY_DIR)
                 (logger INFO ''Created directory at {SSH_KEY_DIR}'')) w"
  let ?finish = "bind_io get_public_key (\<lambda>public_key.
       logger INFO ''Generated SSH keypair {public_key}'')"
  from assms obtain wa wb wc wd we
    where a: "logger INFO ''Generating SSH keypair at {SSH_KEY_PRIVATE_PATH}'' w = (Inr (), wa)"
      and b: "?prepare wa = (Inr (), wb)"
      and c: "ssh_keygen SSH_KEY_PRIVATE_PATH (notebook_name wb) wb = (Inr (), wc)"
      and d: "logger INFO ''{ssh-keygen output}'' wc = (Inr (), wd)"
      and e: "os_chmod SSH_KEY_PRIVATE_PATH wd = (Inr (), we)"
      and f: "?finish we = (Inr (), w')"
    unfolding generate_ssh_keypair_def by (elim seq_io_Inr)
  define K where "K = (\<lambda>material.
    key_on_disk (''ssh-rsa '' @ material @ '' '' @ notebook_name wb @ [CHR 0x0A]) (notebook_name wb))"
  from ssh_keygen_success [OF c] obtain material where "K material wc"
    unfolding K_def by blast
  have kq: "quiet (K material)"
    unfolding K_def by (rule key_on_disk_quiet)
  have chmod: "preserves (K material) (os_chmod SSH_KEY_PRIVATE_PATH)"
    unfolding K_def by (rule key_on_disk_writes(4))
  have fin: "preserves (K material) ?finish"
    by (intro preserves_bind quiet_logger [OF kq] quiet_get_public_key [OF kq])
  from \<open>K material wc\<close> d have "K material wd"
    by (rule preserves_run [OF quiet_logger [OF kq]])
  then have "K material we" using e by (rule preserves_run [OF chmod])
  then have "K material w'" using f by (rule preserves_run [OF fin])
  then have f1: "files w' SSH_KEY_PUBLIC_PATH =
      Some (''ssh-rsa '' @ material @ '' '' @ notebook_name wb @ [CHR 0x0A])"
    and n1: "notebook_name w' = notebook_name wb"
    unfolding K_def key_on_disk_def by blast+
  have n2: "notebook_name w' = notebook_name w"
    by (rule preserves_run [OF key_quiet_generate_ssh_keypair [OF notebook_name_key_quiet] refl assms])
  from n1 n2 have eq: "notebook_name wb = notebook_name w"
    by (rule trans [OF sym])
  from f1 have "files w' SSH_KEY_PUBLIC_PATH =
      Some (''ssh-rsa '' @ material @ '' '' @ notebook_name w @ [CHR 0x0A])"
    by (simp only: eq)
  with n2 show ?thesis
    unfolding key_on_disk_def by blast
qed

lemma connect_dev_endpoint_success:
  assumes "connect_dev_endpoint n w = (Inr (), w1)"
  shows "files w1 CURRENT_DEV_ENDPOINT_PATH = Some n"
    and "\<exists>material. key_on_disk
       (''ssh-rsa '' @ material @ '' '' @ notebook_name w1 @ [CHR 0x0A]) (notebook_name w1) w1"
proof -
  from assms obtain wa wb wc wd we wf wg wh wi wj
    where a: "logger INFO ''Connecting to dev_endpoint={dev_endpoint_name}'' w = (Inr (), wa)"
      and b: "delete_public_keys_if_has n wa = (Inr (), wb)"
      and c: "generate_ssh_keypair wb = (Inr (), wc)"
      and d: "add_public_key n wc = (Inr (), wd)"
      and e: "start_autossh wd = (Inr (), we)"
      and f: "logger INFO ''Waiting {LIVY_PING_TIMEOUT_IN_SEC} seconds for tunnel ready'' we = (Inr (), wf)"
      and g: "time_sleep LIVY_PING_TIMEOUT_IN_SEC wf = (Inr (), wg)"
      and h: "ping_livy wg = (Inr (), wh)"
      and i: "save_current_dev_endpoint n wh = (Inr (), wi)"
      and j: "update_connection_tag ''ready'' wi = (Inr (), wj)"
      and l: "logger INFO ''Connected to dev_endpoint={dev_endpoint_name}'' wj = (Inr (), w1)"
    unfolding connect_dev_endpoint_def by (elim seq_io_Inr)
  note bq = binding_quiet [of "Some n"]
  from save_current_dev_endpoint_success [OF i]
  have "files wj CURRENT_DEV_ENDPOINT_PATH = Some n"
    using j by (rule preserves_run [OF quiet_update_connection_tag [OF bq]])
  then show "files w1 CURRENT_DEV_ENDPOINT_PATH = Some n"
    using l by (rule preserves_run [OF quiet_logger [OF bq]])
  from generate_ssh_keypair_success [OF c] obtain material
    where "key_on_disk (''ssh-rsa '' @ material @ '' '' @ notebook_name wb @ [CHR 0x0A])
             (notebook_name wb) wc"
    by blast
  moreover define K where
    "K = key_on_disk (''ssh-rsa '' @ material @ '' '' @ notebook_name wb @ [CHR 0x0A]) (notebook_name wb)"
  ultimately have "K wc" by simp
  have kq: "quiet K" unfolding K_def by (rule key_on_disk_quiet)
  have kw: "preserves K (file_write AUTO_SSH_HOST_PATH a)"
    "preserves K (file_write CURRENT_DEV_ENDPOINT_PATH n')"
    "preserves K (requests_get url t)" for a n' url t
    unfolding K_def by (rule key_on_disk_writes)+
  have ping: "preserves K ping_livy"
    unfolding ping_livy_def by (intro preserves_intros quiet_prims [OF kq] kw)
  have save: "preserves K (save_current_dev_endpoint n)"
    unfolding save_current_dev_endpoint_def by (intro preserves_intros quiet_prims [OF kq] kw)
  from \<open>K wc\<close> d have "K wd"
    by (rule preserves_run [OF add_public_key_preserves [OF kq kw(1)]])
  then have "K we" using e by (rule preserves_run [OF quiet_start_autossh [OF kq]])
  then have "K wf" using f by (rule preserves_run [OF quiet_logger [OF kq]])
  then have "K wg" using g by (rule preserves_run [OF quiet_time_sleep [OF kq]])
  then have "K wh" using h by (rule preserves_run [OF ping])
  then have "K wi" using i by (rule preserves_run [OF save])
  then have "K wj" using j by (rule preserves_run [OF quiet_update_connection_tag [OF kq]])
  then have "K w1" using l by (rule preserves_run [OF quiet_logger [OF kq]])
  then have f1: "files w1 SSH_KEY_PUBLIC_PATH =
      Some (''ssh-rsa '' @ material @ '' '' @ notebook_name wb @ [CHR 0x0A])"
    and n1: "notebook_name w1 = notebook_name wb"
    unfolding K_def key_on_disk_def by blast+
  from f1 have "files w1 SSH_KEY_PUBLIC_PATH =
      Some (''ssh-rsa '' @ material @ '' '' @ notebook_name w1 @ [CHR 0x0A])"
    by (simp only: n1)
  then show "\<exists>material. key_on_disk
       (''ssh-rsa '' @ material @ '' '' @ notebook_name w1 @ [CHR 0x0A]) (notebook_name w1) w1"
    unfolding key_on_disk_def by blast
qed

end
